theory Spec2Isabelle
  imports Main "HOL-Library.Multiset"
begin

section \<open>JavaScript numbers\<close>

text \<open>
  The scheduler computes with JavaScript numbers. Every finite number that occurs is an
  integer (counts, whole days, scores), so a finite value is modelled as an \<open>int\<close>;
  \<open>Infinity\<close>, \<open>-Infinity\<close> and \<open>NaN\<close> are kept as values of their own, because
  \<open>calculateDaysSince\<close> returns \<open>Infinity\<close> and can produce \<open>NaN\<close>. Doubles
  are exact on the integers that occur; their rounding beyond \<open>2^53\<close>, and in the
  one division (by the milliseconds of a day) for instants more than a hundred thousand
  years from now, is not modelled.
\<close>

datatype jsnum = Num int | PosInf | NegInf | NaN

fun js_neg :: "jsnum \<Rightarrow> jsnum" where
  "js_neg (Num a) = Num (- a)"
| "js_neg PosInf = NegInf"
| "js_neg NegInf = PosInf"
| "js_neg NaN = NaN"

fun js_add :: "jsnum \<Rightarrow> jsnum \<Rightarrow> jsnum" where
  "js_add (Num a) (Num b) = Num (a + b)"
| "js_add NaN y = NaN"
| "js_add x NaN = NaN"
| "js_add PosInf NegInf = NaN"
| "js_add NegInf PosInf = NaN"
| "js_add PosInf y = PosInf"
| "js_add x PosInf = PosInf"
| "js_add NegInf y = NegInf"
| "js_add x NegInf = NegInf"

definition js_sub :: "jsnum \<Rightarrow> jsnum \<Rightarrow> jsnum" where
  "js_sub x y = js_add x (js_neg y)"

fun js_mul :: "jsnum \<Rightarrow> jsnum \<Rightarrow> jsnum" where
  "js_mul (Num a) (Num b) = Num (a * b)"
| "js_mul NaN y = NaN"
| "js_mul x NaN = NaN"
| "js_mul (Num a) y = (if a = 0 then NaN else if 0 < a then y else js_neg y)"
| "js_mul x (Num b) = (if b = 0 then NaN else if 0 < b then x else js_neg x)"
| "js_mul PosInf y = y"
| "js_mul NegInf y = js_neg y"

text \<open>The comparisons \<open>>\<close> and \<open>>=\<close>: false as soon as one side is \<open>NaN\<close>.\<close>

fun js_gt :: "jsnum \<Rightarrow> jsnum \<Rightarrow> bool" where
  "js_gt (Num a) (Num b) = (b < a)"
| "js_gt NaN y = False"
| "js_gt x NaN = False"
| "js_gt PosInf PosInf = False"
| "js_gt PosInf y = True"
| "js_gt x PosInf = False"
| "js_gt NegInf y = False"
| "js_gt x NegInf = True"

fun js_ge :: "jsnum \<Rightarrow> jsnum \<Rightarrow> bool" where
  "js_ge (Num a) (Num b) = (b \<le> a)"
| "js_ge NaN y = False"
| "js_ge x NaN = False"
| "js_ge PosInf y = True"
| "js_ge x PosInf = False"
| "js_ge x NegInf = True"
| "js_ge NegInf y = False"

section \<open>Data model\<close>

text \<open>
  A position of the corpus. Only the fields read by the scheduler are kept:
  \<open>fen\<close> and \<open>player_move\<close> (they enter the problem ID), \<open>best_move\<close> (compared with
  the learner's move) and \<open>error_type\<close> (read by the filter; it may be missing).
  A position is a JavaScript object, and \<open>indexOf\<close> finds it by reference:
  \<open>object_id\<close> is the identity of the object, so that two entries of the corpus with
  the same content are still two values, and equality of values is equality of
  references.
\<close>

record position =
  object_id :: nat
  fen :: string
  player_move :: string
  best_move :: string
  error_type :: "string option"

text \<open>
  The \<open>last_attempt\<close> field of a stored record is a string or null. What the scheduler
  does with it depends only on three cases: the value is falsy (null, undefined, the
  empty string); \<open>new Date\<close> of it is an invalid date; or \<open>new Date\<close> of it is an
  instant, given here by its time value in milliseconds.
\<close>

datatype lastAttempt = Missing | Unparseable | Instant int

text \<open>
  A stored record. \<open>attempts\<close> is a count, a natural number; the two flags are
  booleans.
\<close>

record problemStat =
  solved :: bool
  attempts :: nat
  first_try_solved :: bool
  last_attempt :: lastAttempt

datatype js_error = TypeError | RangeError

section \<open>Interval table\<close>

definition REPETITION_INTERVALS :: "int \<rightharpoonup> nat" where
  "REPETITION_INTERVALS =
     map_of [(0, 0), (1, 1), (2, 3), (3, 7), (4, 14), (5, 30), (6, 90), (7, 180), (8, 365)]"

text \<open>
  The expression \<open>REPETITION_INTERVALS[masteryLevel] || 0\<close> bound to \<open>intervalDays\<close>:
  a missing key reads as undefined, and undefined and 0 are both replaced by 0.
\<close>

definition intervalDays :: "int \<Rightarrow> nat" where
  "intervalDays masteryLevel =
     (case REPETITION_INTERVALS masteryLevel of
        None \<Rightarrow> 0
      | Some d \<Rightarrow> (if d = 0 then 0 else d))"

section \<open>Mastery evaluator\<close>

text \<open>
  \<open>calculateMasteryLevel\<close>. The local \<open>attempts\<close> is \<open>problemStat.attempts || 1\<close>,
  so a count of 0 is read as 1. \<open>Math.floor (attempts / 2)\<close> on a non-negative
  integer is integer division.
\<close>

definition calculateMasteryLevel :: "problemStat \<Rightarrow> nat" where
  "calculateMasteryLevel ps =
     (if \<not> solved ps then 0
      else
        let a = (if attempts ps = 0 then 1 else attempts ps)
        in if first_try_solved ps then min 3 a else min 2 (a div 2))"

section \<open>Days since the last attempt\<close>

definition msPerDay :: int where
  "msPerDay = 1000 * 60 * 60 * 24"

text \<open>
  The body of the \<open>try\<close> block of \<open>calculateDaysSince\<close>, with the clock reading
  \<open>now\<close> (\<open>new Date()\<close>) as a parameter. \<open>new Date\<close> of a string never throws: an
  unparseable string gives an invalid date, whose difference with \<open>now\<close> is \<open>NaN\<close>,
  and \<open>Math.abs\<close> and \<open>Math.floor\<close> keep \<open>NaN\<close>. A missing value does not reach
  the block: the function returns before it.
\<close>

definition daysSince_try :: "int \<Rightarrow> lastAttempt \<Rightarrow> js_error + jsnum" where
  "daysSince_try now lastAttemptStr =
     (case lastAttemptStr of
        Instant t \<Rightarrow> Inr (Num (\<bar>now - t\<bar> div msPerDay))
      | _ \<Rightarrow> Inr NaN)"

definition calculateDaysSince :: "int \<Rightarrow> lastAttempt \<Rightarrow> jsnum" where
  "calculateDaysSince now lastAttemptStr =
     (if lastAttemptStr = Missing then PosInf
      else case daysSince_try now lastAttemptStr of
             Inl e \<Rightarrow> PosInf
           | Inr diffDays \<Rightarrow> diffDays)"

section \<open>Priority\<close>

definition calculatePriority :: "problemStat \<Rightarrow> jsnum \<Rightarrow> nat \<Rightarrow> jsnum" where
  "calculatePriority ps daysSinceLastSeen intervalD =
     (let p0 = Num 100;
          p1 = (if js_gt daysSinceLastSeen (Num (int intervalD))
                then js_add p0 (js_mul (js_sub daysSinceLastSeen (Num (int intervalD))) (Num 10))
                else p0);
          p2 = (if \<not> solved ps then js_add p1 (Num 50) else p1);
          p3 = js_add p2 (js_mul (Num (int (attempts ps))) (Num 5));
          masteryLevel = calculateMasteryLevel ps
      in js_sub p3 (js_mul (Num (int masteryLevel)) (Num 20)))"

section \<open>Problem IDs\<close>

text \<open>
  Template literals render a number in decimal. \<open>string_of_int\<close> is that rendering
  for the indices that occur (\<open>indexOf\<close> can give \<open>-1\<close>).
\<close>

definition digit_char :: "nat \<Rightarrow> char" where
  "digit_char d = ''0123456789'' ! d"

function string_of_nat :: "nat \<Rightarrow> string" where
  "string_of_nat n =
     (if n < 10 then [digit_char n]
      else string_of_nat (n div 10) @ [digit_char (n mod 10)])"
  by pat_completeness auto
termination
  by (relation "measure id") auto

declare string_of_nat.simps [simp del]

definition string_of_int :: "int \<Rightarrow> string" where
  "string_of_int i =
     (if i < 0 then CHR ''-'' # string_of_nat (nat (- i)) else string_of_nat (nat i))"

text \<open>
  \<open>getProblemId\<close> of the chessboard component; the scheduler writes the same template
  \<open>`${position.fen}_${position.player_move}_${index}`\<close> inline.
\<close>

definition getProblemId :: "position \<Rightarrow> int \<Rightarrow> string" where
  "getProblemId pos idx = fen pos @ ''_'' @ player_move pos @ ''_'' @ string_of_int idx"

section \<open>Due-ness classification\<close>

text \<open>
  The items pushed on the three arrays. \<open>masteryLevel\<close> and \<open>daysSinceLastSeen\<close>
  are absent on the items of new problems.
\<close>

record queueItem =
  position :: position
  index :: nat
  priority :: jsnum
  masteryLevel :: "nat option"
  daysSinceLastSeen :: "jsnum option"
  isNew :: bool

record buckets =
  newProblems :: "queueItem list"
  dueProblems :: "queueItem list"
  notDueProblems :: "queueItem list"

text \<open>
  One iteration of the \<open>for\<close> loop of \<open>calculateSpacedRepetitionQueue\<close>, for the
  position at index \<open>i\<close>. \<open>calculateDaysSince\<close> reads the clock at every call;
  \<open>clock i\<close> is the reading during iteration \<open>i\<close>. A stored record is an object,
  hence truthy: \<open>!problemStat\<close> holds exactly when the key is missing.
\<close>

definition classify_step ::
  "(string \<rightharpoonup> problemStat) \<Rightarrow> (nat \<Rightarrow> int) \<Rightarrow> buckets \<Rightarrow> nat \<times> position \<Rightarrow> buckets" where
  "classify_step problemStats clock b ip =
     (let i = fst ip; pos = snd ip;
          problemId = getProblemId pos (int i)
      in case problemStats problemId of
           None \<Rightarrow>
             b\<lparr>newProblems := newProblems b @
                 [\<lparr>position = pos, index = i, priority = Num 0, masteryLevel = None,
                   daysSinceLastSeen = None, isNew = True\<rparr>]\<rparr>
         | Some problemStat \<Rightarrow>
             let mastery = calculateMasteryLevel problemStat;
                 days = calculateDaysSince (clock i) (last_attempt problemStat);
                 intervalD = intervalDays (int mastery)
             in if js_ge days (Num (int intervalD)) \<or> mastery = 0
                then b\<lparr>dueProblems := dueProblems b @
                       [\<lparr>position = pos, index = i,
                         priority = calculatePriority problemStat days intervalD,
                         masteryLevel = Some mastery, daysSinceLastSeen = Some days,
                         isNew = False\<rparr>]\<rparr>
                else b\<lparr>notDueProblems := notDueProblems b @
                       [\<lparr>position = pos, index = i, priority = Num (- 1),
                         masteryLevel = Some mastery, daysSinceLastSeen = Some days,
                         isNew = False\<rparr>]\<rparr>)"

definition classifyPositions ::
  "(string \<rightharpoonup> problemStat) \<Rightarrow> (nat \<Rightarrow> int) \<Rightarrow> position list \<Rightarrow> buckets" where
  "classifyPositions problemStats clock allPositions =
     foldl (classify_step problemStats clock)
       \<lparr>newProblems = [], dueProblems = [], notDueProblems = []\<rparr>
       (zip [0 ..< length allPositions] allPositions)"

section \<open>Ranking, caps and shuffle\<close>

text \<open>
  \<open>dueProblems.sort((a, b) => b.priority - a.priority)\<close>. The language's \<open>sort\<close> is
  stable and orders by the comparator, a positive result meaning that the first
  argument goes after the second; a \<open>NaN\<close> result counts as 0. It is modelled by a
  stable insertion sort driven by the same comparator.
\<close>

definition byPriority :: "queueItem \<Rightarrow> queueItem \<Rightarrow> jsnum" where
  "byPriority a b = js_sub (priority b) (priority a)"

fun sort_insert :: "('a \<Rightarrow> 'a \<Rightarrow> jsnum) \<Rightarrow> 'a \<Rightarrow> 'a list \<Rightarrow> 'a list" where
  "sort_insert cmp x [] = [x]"
| "sort_insert cmp x (y # ys) =
     (if js_gt (cmp x y) (Num 0) then y # sort_insert cmp x ys else x # y # ys)"

fun array_sort :: "('a \<Rightarrow> 'a \<Rightarrow> jsnum) \<Rightarrow> 'a list \<Rightarrow> 'a list" where
  "array_sort cmp [] = []"
| "array_sort cmp (x # xs) = sort_insert cmp x (array_sort cmp xs)"

text \<open>
  \<open>shuffleArray\<close>: the loop runs \<open>i\<close> from \<open>length - 1\<close> down to 1 and swaps the
  elements at \<open>i\<close> and \<open>j = Math.floor(Math.random() * (i + 1))\<close>. The random source
  is a parameter: \<open>rnd i\<close> is the draw made at loop index \<open>i\<close>, reduced into the range
  \<open>0..i\<close> that \<open>j\<close> has.
\<close>

fun shuffle_loop :: "(nat \<Rightarrow> nat) \<Rightarrow> nat \<Rightarrow> 'a list \<Rightarrow> 'a list" where
  "shuffle_loop rnd 0 shuffled = shuffled"
| "shuffle_loop rnd (Suc i) shuffled =
     (let j = rnd (Suc i) mod (Suc i + 1)
      in shuffle_loop rnd i (shuffled[Suc i := shuffled ! j, j := shuffled ! Suc i]))"

definition shuffleArray :: "(nat \<Rightarrow> nat) \<Rightarrow> 'a list \<Rightarrow> 'a list" where
  "shuffleArray rnd array = shuffle_loop rnd (length array - 1) array"

definition maxNewProblems :: nat where
  "maxNewProblems = 10"

definition maxReviewProblems :: nat where
  "maxReviewProblems = 50"

text \<open>
  The second half of \<open>calculateSpacedRepetitionQueue\<close>: sort the due items, cut both
  arrays, concatenate due-then-new and shuffle. The result is the array \<open>shuffled\<close>.
\<close>

definition selectItems :: "(nat \<Rightarrow> nat) \<Rightarrow> buckets \<Rightarrow> queueItem list" where
  "selectItems rnd b =
     (let sortedDue = array_sort byPriority (dueProblems b);
          selectedNew = take maxNewProblems (newProblems b);
          selectedDue = take maxReviewProblems sortedDue;
          allSelected = selectedDue @ selectedNew
      in shuffleArray rnd allSelected)"

record queueInfo =
  due :: nat
  new :: nat
  total :: nat

text \<open>
  \<open>currentStats.problemStats || {}\<close>: a missing table reads as the empty one.
\<close>

definition problemStatsOf :: "(string \<rightharpoonup> problemStat) option \<Rightarrow> (string \<rightharpoonup> problemStat)" where
  "problemStatsOf currentStats = (case currentStats of None \<Rightarrow> Map.empty | Some m \<Rightarrow> m)"

text \<open>
  \<open>calculateSpacedRepetitionQueue\<close>: the returned queue of positions and the queue
  information it stores with \<open>setQueueInfo\<close>.
\<close>

definition calculateSpacedRepetitionQueue ::
  "(nat \<Rightarrow> nat) \<Rightarrow> (nat \<Rightarrow> int) \<Rightarrow> position list \<Rightarrow> (string \<rightharpoonup> problemStat) option
     \<Rightarrow> position list \<times> queueInfo" where
  "calculateSpacedRepetitionQueue rnd clock allPositions currentStats =
     (let b = classifyPositions (problemStatsOf currentStats) clock allPositions;
          shuffled = selectItems rnd b
      in (map position shuffled,
          \<lparr>due = length (dueProblems b), new = length (newProblems b),
           total = length allPositions\<rparr>))"

section \<open>The trainer component\<close>

text \<open>
  \<open>toLowerCase\<close> on the ASCII letters, which is all that the comparison with
  \<open>'blunder'\<close> and \<open>'mistake'\<close> needs.
\<close>

definition lower_char :: "char \<Rightarrow> char" where
  "lower_char c =
     (case map_of (zip ''ABCDEFGHIJKLMNOPQRSTUVWXYZ'' ''abcdefghijklmnopqrstuvwxyz'') c of
        None \<Rightarrow> c
      | Some l \<Rightarrow> l)"

definition toLowerCase :: "string \<Rightarrow> string" where
  "toLowerCase s = map lower_char s"

definition getFilteredPositions :: "string \<Rightarrow> position list \<Rightarrow> position list" where
  "getFilteredPositions errorTypeFilter positions =
     (if errorTypeFilter = ''all'' then positions
      else filter
        (\<lambda>pos. case error_type pos of
                  None \<Rightarrow> False
                | Some e \<Rightarrow> e \<noteq> [] \<and>
                    toLowerCase e =
                      (if errorTypeFilter = ''blunder'' then ''blunder'' else ''mistake''))
        positions)"

text \<open>
  \<open>array.indexOf(x)\<close>: the first index holding \<open>x\<close>, or \<open>-1\<close>. JavaScript compares
  object references; a position carries its object identity, so comparing values is
  comparing references.
\<close>

fun indexOf_from :: "nat \<Rightarrow> 'a list \<Rightarrow> 'a \<Rightarrow> int" where
  "indexOf_from k [] x = - 1"
| "indexOf_from k (y # ys) x = (if y = x then int k else indexOf_from (Suc k) ys x)"

definition indexOf :: "'a list \<Rightarrow> 'a \<Rightarrow> int" where
  "indexOf xs x = indexOf_from 0 xs x"

text \<open>
  An assignment \<open>copy[i] = v\<close> on an array: in range it replaces the element; out of
  range JavaScript extends the array, the holes reading as undefined, which the
  code's \<open>|| 0\<close> and truth tests turn into the filler \<open>d\<close>.
\<close>

definition array_set :: "'a \<Rightarrow> 'a list \<Rightarrow> nat \<Rightarrow> 'a \<Rightarrow> 'a list" where
  "array_set d xs i v =
     (if i < length xs then xs[i := v] else xs @ replicate (i - length xs) d @ [v])"

definition array_get :: "'a \<Rightarrow> 'a list \<Rightarrow> nat \<Rightarrow> 'a" where
  "array_get d xs i = (if i < length xs then xs ! i else d)"

definition MAX_ATTEMPTS :: nat where
  "MAX_ATTEMPTS = 3"

record sessionStats =
  studied :: nat
  correct :: nat
  autoRevealed :: nat

text \<open>
  A callback passed to \<open>setTimeout\<close> sees the state variables of the render that
  created it. \<open>closure\<close> holds those it reads.
\<close>

record closure =
  cl_currentPositions :: "position list"
  cl_currentIndex :: nat
  cl_solved :: "bool list"
  cl_attempts :: "nat list"
  cl_isBackendAvailable :: bool

datatype timer =
    RevealTimer closure
  | AutoCompleteTimer closure
  | SolvedCompleteTimer closure
  | AdvanceTimer closure

text \<open>
  The state of the spaced-repetition trainer with the chessboard it renders. The state
  arrays \<open>solved\<close> and \<open>attempts\<close> are \<open>solved_arr\<close> and \<open>attempts_arr\<close> here (the
  names are taken by the fields of a stored record). \<open>time_ms\<close> is the time in
  milliseconds since the component was created; \<open>timers\<close> are the pending
  \<open>setTimeout\<close> callbacks, each with the time at which it is due, in the order they
  were set; \<open>completions\<close> logs every call
  \<open>handlePositionComplete(wasCorrect, wasAutoRevealed)\<close> with the queue index it is
  for; \<open>recorded\<close> logs every call \<open>recordAttempt(problemId, _, isCorrect, _)\<close>.
  What only feeds the header is left out: the loaded statistics, the queue information
  and the two session counters that are never changed.
\<close>

record trainer =
  positions :: "position list"
  currentPositions :: "position list"
  currentIndex :: nat
  solved_arr :: "bool list"
  attempts_arr :: "nat list"
  isLoading :: bool
  sessionStats :: sessionStats
  isBackendAvailable :: bool
  autoRevealTriggered :: bool
  previousSolvedState :: bool
  showAutoRevealMessage :: bool
  current :: nat
  board_isBackendAvailable :: bool
  showSolution :: bool
  time_ms :: nat
  timers :: "(nat \<times> timer) list"
  completions :: "(nat \<times> bool \<times> bool) list"
  recorded :: "(string \<times> bool) list"

text \<open>\<open>setTimeout(callback, delay)\<close>: the callback is due \<open>delay\<close> milliseconds from now.\<close>

definition setTimeout :: "timer \<Rightarrow> nat \<Rightarrow> trainer \<Rightarrow> trainer" where
  "setTimeout callback delay s = s\<lparr>timers := timers s @ [(time_ms s + delay, callback)]\<rparr>"

definition capture :: "trainer \<Rightarrow> closure" where
  "capture s =
     \<lparr>cl_currentPositions = currentPositions s, cl_currentIndex = currentIndex s,
      cl_solved = solved_arr s, cl_attempts = attempts_arr s,
      cl_isBackendAvailable = isBackendAvailable s\<rparr>"

definition initialState :: "position list \<Rightarrow> trainer" where
  "initialState ps =
     \<lparr>positions = ps, currentPositions = [], currentIndex = 0, solved_arr = [],
      attempts_arr = [], isLoading = True,
      sessionStats = \<lparr>studied = 0, correct = 0, autoRevealed = 0\<rparr>,
      isBackendAvailable = True, autoRevealTriggered = False,
      previousSolvedState = False, showAutoRevealMessage = False, current = 0,
      board_isBackendAvailable = True, showSolution = False,
      time_ms = 0, timers = [], completions = [], recorded = []\<rparr>"

text \<open>
  While \<open>isLoading\<close> holds the trainer renders the loading screen, so the chessboard
  components are mounted anew when loading ends: their state starts from its initial
  values. The board's backend flag starts as true; its own start-up check is an event
  of its own.
\<close>

definition mountBoard :: "trainer \<Rightarrow> trainer" where
  "mountBoard s =
     s\<lparr>previousSolvedState := False, showAutoRevealMessage := False,
       current := currentIndex s, board_isBackendAvailable := True,
       showSolution := False\<rparr>"

text \<open>The \<open>catch\<close> branch of \<open>initializeSpacedRepetition\<close>, with \<open>finally\<close>.\<close>

definition initialize_catch :: "trainer \<Rightarrow> trainer" where
  "initialize_catch s =
     s\<lparr>currentPositions := take 20 (positions s),
       solved_arr := replicate 20 False,
       attempts_arr := replicate 20 0,
       isBackendAvailable := False,
       isLoading := False\<rparr>"

text \<open>
  \<open>initializeSpacedRepetition\<close>. The two awaited calls are parameters: \<open>backend\<close> is the
  outcome of \<open>checkBackendAvailability()\<close> and \<open>statsResp\<close> that of \<open>getStats()\<close>, each
  either a rejection or a value.
\<close>

definition initializeSpacedRepetition ::
  "(nat \<Rightarrow> nat) \<Rightarrow> (nat \<Rightarrow> int) \<Rightarrow> string \<Rightarrow> js_error + bool
     \<Rightarrow> js_error + (string \<rightharpoonup> problemStat) option \<Rightarrow> trainer \<Rightarrow> trainer" where
  "initializeSpacedRepetition rnd clock errorTypeFilter backend statsResp s =
     (let s0 = s\<lparr>isLoading := True\<rparr>
      in case backend of
           Inl e \<Rightarrow> mountBoard (initialize_catch s0)
         | Inr backendAvailable \<Rightarrow>
             let s1 = s0\<lparr>isBackendAvailable := backendAvailable\<rparr>;
                 filteredPositions = getFilteredPositions errorTypeFilter (positions s)
             in if \<not> backendAvailable
                then mountBoard
                       (s1\<lparr>currentPositions := take 20 filteredPositions,
                           solved_arr := replicate (min 20 (length filteredPositions)) False,
                           attempts_arr := replicate (min 20 (length filteredPositions)) 0,
                           isLoading := False\<rparr>)
                else case statsResp of
                       Inl e \<Rightarrow> mountBoard (initialize_catch s1)
                     | Inr currentStats \<Rightarrow>
                         let scheduledPositions =
                               fst (calculateSpacedRepetitionQueue rnd clock
                                      filteredPositions currentStats)
                         in mountBoard
                              (s1\<lparr>currentPositions := scheduledPositions,
                                  solved_arr := replicate (length scheduledPositions) False,
                                  attempts_arr := replicate (length scheduledPositions) 0,
                                  isLoading := False\<rparr>))"

text \<open>
  \<open>handlePositionComplete\<close>, called from the render whose variables are \<open>cl\<close>. The
  session counters are updated from their latest value. The ID sent to the store uses
  \<open>positions.indexOf(position)\<close>. A failure of \<open>recordAttempt\<close> is ignored by the
  code. The callback that advances the queue is set as a timer, due after 3000
  milliseconds for an auto-revealed position and after 1500 otherwise.
\<close>

definition handlePositionComplete :: "closure \<Rightarrow> bool \<Rightarrow> bool \<Rightarrow> trainer \<Rightarrow> trainer" where
  "handlePositionComplete cl wasCorrect wasAutoRevealed s =
     (let prev = sessionStats s;
          s1 = s\<lparr>sessionStats :=
                   \<lparr>studied = studied prev + 1,
                    correct = correct prev + (if wasCorrect then 1 else 0),
                    autoRevealed = autoRevealed prev + (if wasAutoRevealed then 1 else 0)\<rparr>,
                 completions := completions s @ [(cl_currentIndex cl, wasCorrect, wasAutoRevealed)]\<rparr>;
          s2 = (if cl_isBackendAvailable cl \<and> cl_currentIndex cl < length (cl_currentPositions cl)
                then let position = cl_currentPositions cl ! cl_currentIndex cl;
                         problemId = getProblemId position (indexOf (positions s) position)
                     in s1\<lparr>recorded := recorded s1 @ [(problemId, wasCorrect)]\<rparr>
                else s1)
      in setTimeout (AdvanceTimer cl) (if wasAutoRevealed then 3000 else 1500)
           (s2\<lparr>autoRevealTriggered := False\<rparr>))"

text \<open>
  \<open>handleIncorrectAttempt\<close>: count the attempt; at \<open>MAX_ATTEMPTS\<close>, unless already
  triggered, set the flag and set the timer that reveals the solution, due after 1000
  milliseconds.
\<close>

definition handleIncorrectAttempt :: "trainer \<Rightarrow> trainer" where
  "handleIncorrectAttempt s =
     (let n = array_get 0 (attempts_arr s) (currentIndex s) + 1;
          s1 = s\<lparr>attempts_arr := array_set 0 (attempts_arr s) (currentIndex s) n\<rparr>
      in if n \<ge> MAX_ATTEMPTS \<and> \<not> autoRevealTriggered s
         then setTimeout (RevealTimer (capture s)) 1000 (s1\<lparr>autoRevealTriggered := True\<rparr>)
         else s1)"

text \<open>
  The callbacks. The reveal callback marks the position solved in its own copy of
  \<open>solved\<close> and sets the timer, due after 4000 milliseconds, that completes the
  position as incorrect and auto-revealed. The advance callback moves to the next queue index, or at the end of
  the queue starts reloading (\<open>initializeSpacedRepetition\<close> sets \<open>isLoading\<close> before its
  first await) and resets index and counters; a change of index resets the board's
  \<open>current\<close>, the solution toggle and the auto-reveal message.
\<close>

definition runTimer :: "timer \<Rightarrow> trainer \<Rightarrow> trainer" where
  "runTimer t s =
     (case t of
        RevealTimer cl \<Rightarrow>
          setTimeout (AutoCompleteTimer cl) 4000
            (s\<lparr>solved_arr := array_set False (cl_solved cl) (cl_currentIndex cl) True\<rparr>)
      | AutoCompleteTimer cl \<Rightarrow> handlePositionComplete cl False True s
      | SolvedCompleteTimer cl \<Rightarrow> handlePositionComplete cl True False s
      | AdvanceTimer cl \<Rightarrow>
          (if int (cl_currentIndex cl) < int (length (cl_currentPositions cl)) - 1
           then s\<lparr>currentIndex := currentIndex s + 1, showAutoRevealMessage := False,
                  current := currentIndex s + 1, showSolution := False\<rparr>
           else s\<lparr>isLoading := True, currentIndex := 0,
                  sessionStats := \<lparr>studied = 0, correct = 0, autoRevealed = 0\<rparr>\<rparr>))"

text \<open>
  The effect of the chessboard wrapper that watches \<open>solved[initialIndex]\<close>; it runs
  after every render. A position that has just become solved shows the auto-reveal
  message when the flag is set, and otherwise sets the timer, due after 2000
  milliseconds, that completes it as correct.
\<close>

definition solvedEffect :: "trainer \<Rightarrow> trainer" where
  "solvedEffect s =
     (let currentSolved = array_get False (solved_arr s) (currentIndex s);
          s1 = (if currentSolved \<and> \<not> previousSolvedState s
                then if autoRevealTriggered s
                     then s\<lparr>showAutoRevealMessage := True\<rparr>
                     else setTimeout (SolvedCompleteTimer (capture s)) 2000 s
                else s)
      in s1\<lparr>previousSolvedState := currentSolved\<rparr>)"

text \<open>
  \<open>onPieceDrop\<close> of the board for the position at \<open>current\<close>. Move legality is the
  chess library's: \<open>legal\<close> says whether the drop is a legal move, \<open>userUci\<close> is its
  source and target square. \<open>apiOk\<close> says whether the call of \<open>recordAttempt\<close>
  succeeds. The board's own attempt counter only feeds the attempt number sent to the
  store and is left out.
\<close>

definition onPieceDrop :: "bool \<Rightarrow> string \<Rightarrow> bool \<Rightarrow> trainer \<Rightarrow> trainer" where
  "onPieceDrop legal userUci apiOk s =
     (if \<not> current s < length (currentPositions s) \<or> \<not> legal then s
      else
        let pos = currentPositions s ! current s;
            isCorrect = (userUci = best_move pos);
            problemId = getProblemId pos (int (current s));
            s1 = (if isCorrect
                  then s\<lparr>solved_arr := array_set False (solved_arr s) (current s) True\<rparr>
                  else s);
            s2 = (if board_isBackendAvailable s1
                  then s1\<lparr>recorded := recorded s1 @ [(problemId, isCorrect)],
                          board_isBackendAvailable := apiOk\<rparr>
                  else s1)
        in if isCorrect then s2 else handleIncorrectAttempt s2)"

text \<open>
  The board's button that plays the best move: when the move can be played, the
  position is marked solved and a correct attempt is recorded under the board's ID.
\<close>

definition playBestMove :: "bool \<Rightarrow> bool \<Rightarrow> trainer \<Rightarrow> trainer" where
  "playBestMove legal apiOk s =
     (if \<not> current s < length (currentPositions s) then s
      else
        let pos = currentPositions s ! current s
        in if best_move pos = [] \<or> \<not> legal then s
           else
             let problemId = getProblemId pos (int (current s));
                 s1 = s\<lparr>solved_arr := array_set False (solved_arr s) (current s) True\<rparr>
             in if board_isBackendAvailable s1
                then s1\<lparr>recorded := recorded s1 @ [(problemId, True)],
                        board_isBackendAvailable := apiOk\<rparr>
                else s1)"

text \<open>
  Pending timers run in the order of their due times, and in the order they were set
  when these are equal. \<open>earliest\<close> is the next one to run.
\<close>

fun earliest :: "(nat \<times> timer) list \<Rightarrow> (nat \<times> timer) option" where
  "earliest [] = None"
| "earliest (x # xs) =
     (case earliest xs of
        None \<Rightarrow> Some x
      | Some y \<Rightarrow> (if fst y < fst x then Some y else Some x))"

text \<open>
  What can happen. \<open>Tick\<close> lets the time pass until the next pending timer is due and
  runs it. \<open>Elapse\<close> lets the given time pass with nothing happening, at most until
  the next timer is due. The other events are the learner's, and the answer to the
  board's start-up check; they exist only while the trainer shows the board, that is
  when it is not loading and the queue is not empty. A piece can be dropped only while
  the board is draggable, that is while \<open>solved[current]\<close> is not set. The three
  buttons of the trainer call \<open>onPositionComplete\<close>; the first two are disabled once
  the auto-reveal flag is set, the third is shown only then. Of the board's own
  buttons, present when there is a position at \<open>current\<close>, the solution toggle, the
  one that plays the best move and the two that move to the previous and the next
  problem are events; a change of the board's problem hides the solution. The hint,
  the reset and the toggle of the learner's move only change what the board draws and
  are left out. The effect that watches \<open>solved\<close> runs after the render that follows
  each event, when the board is shown.
\<close>

datatype event =
    Drop bool string bool
  | Tick
  | Elapse nat
  | BoardBackendChecked bool
  | SkipPosition
  | MarkAsCorrect
  | ContinueToNext
  | ToggleSolution
  | PlayBestMove bool bool
  | PreviousProblem
  | NextProblem

definition shown :: "trainer \<Rightarrow> bool" where
  "shown s = (\<not> isLoading s \<and> currentPositions s \<noteq> [])"

definition learnerEvent :: "event \<Rightarrow> trainer \<Rightarrow> trainer" where
  "learnerEvent ev s =
     (case ev of
        Drop legal userUci apiOk \<Rightarrow>
          (if array_get False (solved_arr s) (current s) then s
           else onPieceDrop legal userUci apiOk s)
      | BoardBackendChecked backendAvailable \<Rightarrow>
          s\<lparr>board_isBackendAvailable := backendAvailable\<rparr>
      | SkipPosition \<Rightarrow>
          (if autoRevealTriggered s then s else handlePositionComplete (capture s) False False s)
      | MarkAsCorrect \<Rightarrow>
          (if autoRevealTriggered s then s else handlePositionComplete (capture s) True False s)
      | ContinueToNext \<Rightarrow>
          (if autoRevealTriggered s then handlePositionComplete (capture s) False True s else s)
      | ToggleSolution \<Rightarrow>
          (if current s < length (currentPositions s)
           then s\<lparr>showSolution := \<not> showSolution s\<rparr> else s)
      | PlayBestMove legal apiOk \<Rightarrow> playBestMove legal apiOk s
      | PreviousProblem \<Rightarrow>
          (if current s < length (currentPositions s) \<and> current s \<noteq> 0
           then s\<lparr>current := current s - 1, showSolution := False\<rparr> else s)
      | NextProblem \<Rightarrow>
          (if current s + 1 < length (currentPositions s)
           then s\<lparr>current := current s + 1, showSolution := False\<rparr> else s)
      | _ \<Rightarrow> s)"

definition handleEvent :: "event \<Rightarrow> trainer \<Rightarrow> trainer" where
  "handleEvent ev s =
     (let s' =
        (case ev of
           Tick \<Rightarrow>
             (case earliest (timers s) of
                None \<Rightarrow> s
              | Some dt \<Rightarrow>
                  runTimer (snd dt)
                    (s\<lparr>timers := remove1 dt (timers s),
                       time_ms := max (time_ms s) (fst dt)\<rparr>))
         | Elapse d \<Rightarrow>
             (case earliest (timers s) of
                None \<Rightarrow> s\<lparr>time_ms := time_ms s + d\<rparr>
              | Some dt \<Rightarrow>
                  s\<lparr>time_ms := min (time_ms s + d) (max (time_ms s) (fst dt))\<rparr>)
         | _ \<Rightarrow> (if shown s then learnerEvent ev s else s))
      in if shown s' then solvedEffect s' else s')"

text \<open>The solution panel shows \<open>pos.best_move\<close> under this condition.\<close>

definition shownSolution :: "trainer \<Rightarrow> string option" where
  "shownSolution s =
     (if (showSolution s \<or> autoRevealTriggered s) \<and> current s < length (currentPositions s)
      then Some (best_move (currentPositions s ! current s)) else None)"

section \<open>Notions used to state the results\<close>

text \<open>
  The record looked up for a corpus entry, the due test of the loop, and the three
  items the loop can push, named so that the loop can be described by its result.
  A priority is rankable when it is a finite number or \<open>Infinity\<close>.
\<close>

definition lookupStat :: "(string \<rightharpoonup> problemStat) \<Rightarrow> nat \<times> position \<Rightarrow> problemStat option" where
  "lookupStat problemStats ip = problemStats (getProblemId (snd ip) (int (fst ip)))"

definition isDueStat :: "int \<Rightarrow> problemStat \<Rightarrow> bool" where
  "isDueStat now st =
     (js_ge (calculateDaysSince now (last_attempt st))
            (Num (int (intervalDays (int (calculateMasteryLevel st)))))
      \<or> calculateMasteryLevel st = 0)"

definition newItem :: "nat \<times> position \<Rightarrow> queueItem" where
  "newItem ip = \<lparr>position = snd ip, index = fst ip, priority = Num 0, masteryLevel = None,
                  daysSinceLastSeen = None, isNew = True\<rparr>"

definition dueItem :: "int \<Rightarrow> problemStat \<Rightarrow> nat \<times> position \<Rightarrow> queueItem" where
  "dueItem now st ip =
     \<lparr>position = snd ip, index = fst ip,
      priority = calculatePriority st (calculateDaysSince now (last_attempt st))
                   (intervalDays (int (calculateMasteryLevel st))),
      masteryLevel = Some (calculateMasteryLevel st),
      daysSinceLastSeen = Some (calculateDaysSince now (last_attempt st)),
      isNew = False\<rparr>"

definition notDueItem :: "int \<Rightarrow> problemStat \<Rightarrow> nat \<times> position \<Rightarrow> queueItem" where
  "notDueItem now st ip =
     \<lparr>position = snd ip, index = fst ip, priority = Num (- 1),
      masteryLevel = Some (calculateMasteryLevel st),
      daysSinceLastSeen = Some (calculateDaysSince now (last_attempt st)),
      isNew = False\<rparr>"

definition dueAt :: "(string \<rightharpoonup> problemStat) \<Rightarrow> (nat \<Rightarrow> int) \<Rightarrow> nat \<times> position \<Rightarrow> bool" where
  "dueAt P clock ip = (case lookupStat P ip of None \<Rightarrow> False | Some st \<Rightarrow> isDueStat (clock (fst ip)) st)"

definition notDueAt :: "(string \<rightharpoonup> problemStat) \<Rightarrow> (nat \<Rightarrow> int) \<Rightarrow> nat \<times> position \<Rightarrow> bool" where
  "notDueAt P clock ip = (case lookupStat P ip of None \<Rightarrow> False | Some st \<Rightarrow> \<not> isDueStat (clock (fst ip)) st)"

definition rankable :: "jsnum \<Rightarrow> bool" where
  "rankable p = (case p of Num a \<Rightarrow> True | PosInf \<Rightarrow> True | _ \<Rightarrow> False)"

section \<open>A small corpus\<close>

text \<open>
  Three positions, a mistake and two blunders, and a store with a record for the second
  (never solved) and the third (solved first try, three attempts, last attempted at
  instant 0). They serve to run the scheduler on concrete input.
\<close>

definition posA :: position where
  "posA = \<lparr>object_id = 0, fen = ''a'', player_move = ''e2e4'', best_move = ''d2d4'',
            error_type = Some ''mistake''\<rparr>"

definition posB :: position where
  "posB = \<lparr>object_id = 1, fen = ''b'', player_move = ''g1f3'', best_move = ''e2e4'',
            error_type = Some ''Blunder''\<rparr>"

definition posC :: position where
  "posC = \<lparr>object_id = 2, fen = ''c'', player_move = ''h2h3'', best_move = ''c2c4'',
            error_type = Some ''blunder''\<rparr>"

definition example_corpus :: "position list" where
  "example_corpus = [posA, posB, posC]"

definition example_stats :: "string \<rightharpoonup> problemStat" where
  "example_stats =
     [''b_g1f3_1'' \<mapsto>
        \<lparr>solved = False, attempts = 2, first_try_solved = False, last_attempt = Instant 0\<rparr>,
      ''c_h2h3_2'' \<mapsto>
        \<lparr>solved = True, attempts = 3, first_try_solved = True, last_attempt = Instant 0\<rparr>]"

text \<open>
  The session started on that corpus with the blunder filter, the backend available,
  an empty store and a random source that always draws 0.
\<close>

definition example_session :: trainer where
  "example_session =
     initializeSpacedRepetition (\<lambda>i. 0) (\<lambda>i. 0) ''blunder'' (Inr True) (Inr (Some Map.empty))
       (initialState example_corpus)"

section \<open>The classification loop, the sort and the shuffle\<close>

lemma classify_step_cases:
  "classify_step P clock b ip =
     (case lookupStat P ip of
        None \<Rightarrow> b\<lparr>newProblems := newProblems b @ [newItem ip]\<rparr>
      | Some st \<Rightarrow>
          if isDueStat (clock (fst ip)) st
          then b\<lparr>dueProblems := dueProblems b @ [dueItem (clock (fst ip)) st ip]\<rparr>
          else b\<lparr>notDueProblems := notDueProblems b @ [notDueItem (clock (fst ip)) st ip]\<rparr>)"
  by (simp add: classify_step_def lookupStat_def isDueStat_def newItem_def dueItem_def
      notDueItem_def Let_def split: option.split)

lemma foldl_classify_new:
  "newProblems (foldl (classify_step P clock) b ips) =
     newProblems b @ map newItem (filter (\<lambda>ip. lookupStat P ip = None) ips)"
  by (induction ips arbitrary: b) (auto simp: classify_step_cases split: option.split)

lemma foldl_classify_due:
  "dueProblems (foldl (classify_step P clock) b ips) =
     dueProblems b @
     map (\<lambda>ip. dueItem (clock (fst ip)) (the (lookupStat P ip)) ip) (filter (dueAt P clock) ips)"
  by (induction ips arbitrary: b) (auto simp: classify_step_cases dueAt_def split: option.split)

lemma foldl_classify_notDue:
  "notDueProblems (foldl (classify_step P clock) b ips) =
     notDueProblems b @
     map (\<lambda>ip. notDueItem (clock (fst ip)) (the (lookupStat P ip)) ip) (filter (notDueAt P clock) ips)"
  by (induction ips arbitrary: b) (auto simp: classify_step_cases notDueAt_def split: option.split)

lemma in_enumerate: "ip \<in> set (zip [0 ..< length ps] ps) \<longleftrightarrow> fst ip < length ps \<and> snd ip = ps ! fst ip"
proof (cases ip)
  case (Pair a p)
  show ?thesis
  proof
    assume "ip \<in> set (zip [0 ..< length ps] ps)"
    then show "fst ip < length ps \<and> snd ip = ps ! fst ip"
      by (auto simp: in_set_zip)
  next
    assume h: "fst ip < length ps \<and> snd ip = ps ! fst ip"
    then have "[0 ..< length ps] ! a = a \<and> ps ! a = p \<and> a < length ps"
      using Pair by simp
    then show "ip \<in> set (zip [0 ..< length ps] ps)"
      unfolding Pair in_set_zip by (intro exI[of _ a]) simp
  qed
qed

lemma index_newItem [simp]: "index (newItem ip) = fst ip"
  by (simp add: newItem_def)
lemma index_dueItem [simp]: "index (dueItem now st ip) = fst ip"
  by (simp add: dueItem_def)
lemma index_notDueItem [simp]: "index (notDueItem now st ip) = fst ip"
  by (simp add: notDueItem_def)

lemma new_indices:
  "index ` set (newProblems (classifyPositions P clock ps)) =
     {i. i < length ps \<and> lookupStat P (i, ps ! i) = None}"
  by (auto simp: classifyPositions_def foldl_classify_new in_enumerate image_iff)

lemma due_indices:
  "index ` set (dueProblems (classifyPositions P clock ps)) =
     {i. i < length ps \<and> dueAt P clock (i, ps ! i)}"
  by (auto simp: classifyPositions_def foldl_classify_due in_enumerate image_iff)

lemma notDue_indices:
  "index ` set (notDueProblems (classifyPositions P clock ps)) =
     {i. i < length ps \<and> notDueAt P clock (i, ps ! i)}"
  by (auto simp: classifyPositions_def foldl_classify_notDue in_enumerate image_iff)

lemma mset_sort_insert: "mset (sort_insert cmp x xs) = add_mset x (mset xs)"
  by (induction xs) auto

lemma mset_array_sort: "mset (array_sort cmp xs) = mset xs"
  by (induction xs) (auto simp: mset_sort_insert)

lemma set_sort_insert: "set (sort_insert cmp x xs) = insert x (set xs)"
  by (induction xs) auto

lemma set_array_sort: "set (array_sort cmp xs) = set xs"
  by (induction xs) (auto simp: set_sort_insert)

lemma length_array_sort: "length (array_sort cmp xs) = length xs"
  by (metis mset_array_sort size_mset)

lemma byPriority_gt:
  "rankable (priority x) \<Longrightarrow> rankable (priority y) \<Longrightarrow>
   js_gt (byPriority x y) (Num 0) = (\<not> js_ge (priority x) (priority y))"
  by (cases "priority x"; cases "priority y") (auto simp: byPriority_def js_sub_def rankable_def)

lemma js_ge_total:
  "rankable p \<Longrightarrow> rankable q \<Longrightarrow> \<not> js_ge p q \<Longrightarrow> js_ge q p"
  by (cases p; cases q) (auto simp: rankable_def)

lemma js_ge_trans:
  "js_ge p q \<Longrightarrow> js_ge q r \<Longrightarrow> js_ge p r"
  by (cases p; cases q; cases r) auto

lemma sorted_sort_insert:
  assumes "sorted_wrt (\<lambda>a b. js_ge (priority a) (priority b)) xs"
    and "rankable (priority x)" and "\<forall>y \<in> set xs. rankable (priority y)"
  shows "sorted_wrt (\<lambda>a b. js_ge (priority a) (priority b)) (sort_insert byPriority x xs)"
  using assms
proof (induction xs)
  case Nil
  then show ?case by simp
next
  case (Cons y ys)
  show ?case
  proof (cases "js_ge (priority x) (priority y)")
    case True
    then have "\<forall>z \<in> set ys. js_ge (priority x) (priority z)"
      using Cons.prems(1) by (auto intro: js_ge_trans)
    then show ?thesis
      using True Cons.prems by (simp add: byPriority_gt)
  next
    case False
    then have "js_ge (priority y) (priority x)"
      using Cons.prems by (simp add: js_ge_total)
    then show ?thesis
      using False Cons by (auto simp: byPriority_gt set_sort_insert)
  qed
qed

lemma sorted_array_sort:
  "\<forall>y \<in> set xs. rankable (priority y) \<Longrightarrow>
   sorted_wrt (\<lambda>a b. js_ge (priority a) (priority b)) (array_sort byPriority xs)"
  by (induction xs) (auto simp: sorted_sort_insert set_array_sort)

lemma shuffle_loop_mset:
  "i < length xs \<Longrightarrow> mset (shuffle_loop rnd i xs) = mset xs"
proof (induction i arbitrary: xs)
  case 0
  then show ?case by simp
next
  case (Suc i)
  let ?j = "rnd (Suc i) mod (Suc i + 1)"
  have j: "?j < length xs"
  proof -
    have "?j < Suc i + 1" by (rule mod_less_divisor) simp
    then show ?thesis using Suc.prems by linarith
  qed
  have "mset (xs[Suc i := xs ! ?j, ?j := xs ! Suc i]) = mset xs"
    using j Suc.prems by (simp add: mset_swap)
  moreover have "i < length (xs[Suc i := xs ! ?j, ?j := xs ! Suc i])"
    using Suc.prems by simp
  ultimately show ?case
    using Suc.IH by (simp add: Let_def)
qed

lemma mset_shuffleArray: "mset (shuffleArray rnd xs) = mset xs"
  by (cases "xs = []") (simp_all add: shuffleArray_def shuffle_loop_mset)


lemma daysSince_cases:
  "calculateDaysSince now la = PosInf \<or> calculateDaysSince now la = NaN
   \<or> (\<exists>d. calculateDaysSince now la = Num d \<and> 0 \<le> d)"
proof (cases la)
  case (Instant t)
  have "0 \<le> \<bar>now - t\<bar> div msPerDay"
    by (simp add: msPerDay_def pos_imp_zdiv_nonneg_iff)
  then show ?thesis
    using Instant by (simp add: calculateDaysSince_def daysSince_try_def)
qed (simp_all add: calculateDaysSince_def daysSince_try_def)

lemma rankable_priority:
  assumes "days = PosInf \<or> days = NaN \<or> (\<exists>d. days = Num d)"
  shows "rankable (calculatePriority st days iv)"
proof -
  consider "days = PosInf" | "days = NaN" | d where "days = Num d"
    using assms by blast
  then show ?thesis
    by cases (simp_all add: calculatePriority_def rankable_def js_sub_def Let_def)
qed

section \<open>Mastery levels and the interval table\<close>

lemma mastery_le_3: "calculateMasteryLevel ps \<le> 3"
  by (simp add: calculateMasteryLevel_def Let_def min_def)

lemma intervalDays_small:
  "intervalDays 0 = 0" "intervalDays 1 = 1" "intervalDays 2 = 3" "intervalDays 3 = 7"
  by (simp_all add: intervalDays_def REPETITION_INTERVALS_def)

text \<open>
  C9. For every stored record the computed mastery level is at most 3, so the interval
  read from the table is at most 7 days; the levels 4 to 8 and their intervals of 14,
  30, 90, 180 and 365 days are never produced.
\<close>

theorem mastery_level_range:
  "calculateMasteryLevel ps \<le> 3
   \<and> intervalDays (int (calculateMasteryLevel ps)) \<le> 7
   \<and> \<not> (4 \<le> calculateMasteryLevel ps \<and> calculateMasteryLevel ps \<le> 8)
   \<and> intervalDays (int (calculateMasteryLevel ps)) \<notin> {14, 30, 90, 180, 365}"
proof -
  have le: "calculateMasteryLevel ps \<le> 3" by (rule mastery_le_3)
  then consider "calculateMasteryLevel ps = 0" | "calculateMasteryLevel ps = 1"
    | "calculateMasteryLevel ps = 2" | "calculateMasteryLevel ps = 3"
    by linarith
  then have "intervalDays (int (calculateMasteryLevel ps)) \<in> {0, 1, 3, 7}"
    by cases (simp_all add: intervalDays_small)
  then show ?thesis using le by auto
qed

text \<open>The bound is reached: forty first-try attempts give level 3 and 7 days.\<close>

theorem mastery_level_range_witness:
  "calculateMasteryLevel
     \<lparr>solved = True, attempts = 40, first_try_solved = True, last_attempt = Missing\<rparr> = 3
   \<and> intervalDays 3 = 7"
  using mastery_level_range
    [of "\<lparr>solved = True, attempts = 40, first_try_solved = True, last_attempt = Missing\<rparr>"]
  by (simp add: calculateMasteryLevel_def intervalDays_small)

text \<open>
  C7, as the code has it. A level outside the keys 0 to 8 is not clamped to the
  nearest key: the lookup gives undefined and \<open>|| 0\<close> makes the interval 0, below 0 as
  well as above 8.
\<close>

theorem interval_outside_table:
  "l < 0 \<or> 8 < l \<Longrightarrow> intervalDays l = 0"
  by (auto simp: intervalDays_def REPETITION_INTERVALS_def)

theorem interval_outside_table_witness:
  "((9::int) < 0 \<or> 8 < (9::int)) \<and> intervalDays 9 = 0 \<and> intervalDays (- 1) = 0"
  using interval_outside_table [of 9] interval_outside_table [of "- 1"] by simp

text \<open>Level 9 does not get the 365 days of key 8.\<close>

theorem interval_no_clamp_counterexample:
  "intervalDays 8 = 365 \<and> intervalDays 9 \<noteq> 365"
  by (simp add: intervalDays_def REPETITION_INTERVALS_def)

text \<open>
  C2, as the code has it. An unsolved record has level 0. A solved record has level
  \<open>min(3, attempts)\<close> when first-try solved, where a count of 0 is read as 1, and
  \<open>min(2, floor(attempts / 2))\<close> otherwise. The evaluator is total on records. A
  position without a record never reaches the evaluator: the loop pushes it as a new
  problem, an item that carries no mastery level.
\<close>

theorem mastery_level_rule:
  "(\<not> solved ps \<longrightarrow> calculateMasteryLevel ps = 0)
   \<and> (solved ps \<and> first_try_solved ps \<longrightarrow>
        calculateMasteryLevel ps = min 3 (if attempts ps = 0 then 1 else attempts ps))
   \<and> (solved ps \<and> \<not> first_try_solved ps \<longrightarrow>
        calculateMasteryLevel ps = min 2 (attempts ps div 2))
   \<and> (lookupStat P ip = None \<longrightarrow>
        classify_step P clock b ip = b\<lparr>newProblems := newProblems b @ [newItem ip]\<rparr>
        \<and> masteryLevel (newItem ip) = None)"
  by (auto simp: calculateMasteryLevel_def Let_def classify_step_cases newItem_def)

theorem mastery_level_rule_witness:
  "calculateMasteryLevel
     \<lparr>solved = False, attempts = 4, first_try_solved = True, last_attempt = Missing\<rparr> = 0
   \<and> calculateMasteryLevel
     \<lparr>solved = True, attempts = 2, first_try_solved = True, last_attempt = Missing\<rparr> = 2
   \<and> calculateMasteryLevel
     \<lparr>solved = True, attempts = 5, first_try_solved = False, last_attempt = Missing\<rparr> = 2
   \<and> lookupStat Map.empty (0, \<lparr>object_id = 0, fen = ''f'', player_move = ''e2e4'', best_move = ''d2d4'',
        error_type = None\<rparr>) = None
   \<and> newProblems (classify_step Map.empty (\<lambda>i. 0)
        \<lparr>newProblems = [], dueProblems = [], notDueProblems = []\<rparr>
        (0, \<lparr>object_id = 0, fen = ''f'', player_move = ''e2e4'', best_move = ''d2d4'', error_type = None\<rparr>))
      = [newItem (0, \<lparr>object_id = 0, fen = ''f'', player_move = ''e2e4'', best_move = ''d2d4'',
           error_type = None\<rparr>)]"
  using mastery_level_rule
    [of "\<lparr>solved = False, attempts = 4, first_try_solved = True, last_attempt = Missing\<rparr>"
        Map.empty
        "(0, \<lparr>object_id = 0, fen = ''f'', player_move = ''e2e4'', best_move = ''d2d4'', error_type = None\<rparr>)"
        "\<lambda>i. 0" "\<lparr>newProblems = [], dueProblems = [], notDueProblems = []\<rparr>"]
    mastery_level_rule
    [of "\<lparr>solved = True, attempts = 2, first_try_solved = True, last_attempt = Missing\<rparr>"
        Map.empty
        "(0, \<lparr>object_id = 0, fen = ''f'', player_move = ''e2e4'', best_move = ''d2d4'', error_type = None\<rparr>)"
        "\<lambda>i. 0" "\<lparr>newProblems = [], dueProblems = [], notDueProblems = []\<rparr>"]
    mastery_level_rule
    [of "\<lparr>solved = True, attempts = 5, first_try_solved = False, last_attempt = Missing\<rparr>"
        Map.empty
        "(0, \<lparr>object_id = 0, fen = ''f'', player_move = ''e2e4'', best_move = ''d2d4'', error_type = None\<rparr>)"
        "\<lambda>i. 0" "\<lparr>newProblems = [], dueProblems = [], notDueProblems = []\<rparr>"]
  by (simp add: lookupStat_def)

text \<open>
  A solved, first-try record with a count of 0 has level 1, where \<open>min(3, attempts)\<close>
  is 0.
\<close>

theorem mastery_attempts_zero_counterexample:
  "calculateMasteryLevel
     \<lparr>solved = True, attempts = 0, first_try_solved = True, last_attempt = Missing\<rparr> = 1
   \<and> min 3 (attempts
         \<lparr>solved = True, attempts = 0, first_try_solved = True, last_attempt = Missing\<rparr>) = 0"
  by (simp add: calculateMasteryLevel_def)

section \<open>Priority of due items\<close>

lemma due_item_origin:
  assumes "item \<in> set (dueProblems (classifyPositions P clock ps))"
  shows "\<exists>st. index item < length ps
           \<and> lookupStat P (index item, ps ! index item) = Some st
           \<and> isDueStat (clock (index item)) st
           \<and> item = dueItem (clock (index item)) st (index item, ps ! index item)"
proof -
  from assms obtain ip where ip: "ip \<in> set (zip [0 ..< length ps] ps)" "dueAt P clock ip"
    and item: "item = dueItem (clock (fst ip)) (the (lookupStat P ip)) ip"
    by (auto simp: classifyPositions_def foldl_classify_due)
  from ip(2) obtain st where st: "lookupStat P ip = Some st" "isDueStat (clock (fst ip)) st"
    by (auto simp: dueAt_def split: option.splits)
  have "ip = (fst ip, ps ! fst ip)" "fst ip < length ps"
    using ip(1) by (simp_all add: in_enumerate prod_eq_iff)
  then show ?thesis
    using st item by (metis index_dueItem option.sel)
qed

lemma priority_finite_days:
  "calculatePriority st (Num d) iv =
     Num (100 + (if 0 < d - int iv then (d - int iv) * 10 else 0)
          + (if solved st then 0 else 50) + int (attempts st) * 5
          - int (calculateMasteryLevel st) * 20)"
  by (simp add: calculatePriority_def js_sub_def Let_def)

lemma priority_infinite_days: "calculatePriority st PosInf iv = PosInf"
  by (simp add: calculatePriority_def js_sub_def Let_def)

lemma priority_nan_days:
  "calculatePriority st NaN iv =
     Num (100 + (if solved st then 0 else 50) + int (attempts st) * 5
          - int (calculateMasteryLevel st) * 20)"
  by (simp add: calculatePriority_def js_sub_def Let_def)

text \<open>Definitions unfolded to evaluate the scheduler on a concrete corpus.\<close>

lemmas eval_defs = classifyPositions_def classify_step_def getProblemId_def string_of_int_def
  string_of_nat.simps digit_char_def Let_def calculateMasteryLevel_def calculateDaysSince_def
  daysSince_try_def msPerDay_def intervalDays_small calculatePriority_def js_sub_def

text \<open>
  C3. Every item of the due bucket carries the priority computed from its record, its
  days since the last attempt and its interval: 100, plus ten times the days beyond the
  interval when there are any, plus 50 when the record is unsolved, plus five times the
  attempts, minus twenty times the mastery level. With infinitely many days the score
  is \<open>Infinity\<close>; with \<open>NaN\<close> days there is no overdue bonus. The record with 5
  attempts, solved but not first-try, last attempted 10 days ago has level 2, interval
  3, is due, and scores 155.
\<close>

theorem due_priority_score:
  "(\<forall>item \<in> set (dueProblems (classifyPositions P clock ps)).
      \<exists>st. lookupStat P (index item, ps ! index item) = Some st
        \<and> masteryLevel item = Some (calculateMasteryLevel st)
        \<and> daysSinceLastSeen item = Some (calculateDaysSince (clock (index item)) (last_attempt st))
        \<and> priority item =
            calculatePriority st (calculateDaysSince (clock (index item)) (last_attempt st))
              (intervalDays (int (calculateMasteryLevel st))))
   \<and> calculatePriority st (Num d) iv =
       Num (100 + (if 0 < d - int iv then (d - int iv) * 10 else 0)
            + (if solved st then 0 else 50) + int (attempts st) * 5
            - int (calculateMasteryLevel st) * 20)
   \<and> calculatePriority st PosInf iv = PosInf
   \<and> calculatePriority st NaN iv =
       Num (100 + (if solved st then 0 else 50) + int (attempts st) * 5
            - int (calculateMasteryLevel st) * 20)
   \<and> (let r = \<lparr>solved = True, attempts = 5, first_try_solved = False,
                 last_attempt = Instant (now - 10 * msPerDay)\<rparr>
      in calculateMasteryLevel r = 2
         \<and> intervalDays (int (calculateMasteryLevel r)) = 3
         \<and> calculateDaysSince now (last_attempt r) = Num 10
         \<and> isDueStat now r
         \<and> calculatePriority r (calculateDaysSince now (last_attempt r))
              (intervalDays (int (calculateMasteryLevel r))) = Num 155)"
proof -
  have a: "\<forall>item \<in> set (dueProblems (classifyPositions P clock ps)).
      \<exists>st. lookupStat P (index item, ps ! index item) = Some st
        \<and> masteryLevel item = Some (calculateMasteryLevel st)
        \<and> daysSinceLastSeen item = Some (calculateDaysSince (clock (index item)) (last_attempt st))
        \<and> priority item =
            calculatePriority st (calculateDaysSince (clock (index item)) (last_attempt st))
              (intervalDays (int (calculateMasteryLevel st)))"
  proof
    fix item assume "item \<in> set (dueProblems (classifyPositions P clock ps))"
    then obtain st where st: "lookupStat P (index item, ps ! index item) = Some st"
      "item = dueItem (clock (index item)) st (index item, ps ! index item)"
      using due_item_origin by blast
    have "masteryLevel item = Some (calculateMasteryLevel st)
        \<and> daysSinceLastSeen item = Some (calculateDaysSince (clock (index item)) (last_attempt st))
        \<and> priority item =
            calculatePriority st (calculateDaysSince (clock (index item)) (last_attempt st))
              (intervalDays (int (calculateMasteryLevel st)))"
      by (subst (1 2 3) st(2)) (simp add: dueItem_def)
    then show "\<exists>st. lookupStat P (index item, ps ! index item) = Some st
        \<and> masteryLevel item = Some (calculateMasteryLevel st)
        \<and> daysSinceLastSeen item = Some (calculateDaysSince (clock (index item)) (last_attempt st))
        \<and> priority item =
            calculatePriority st (calculateDaysSince (clock (index item)) (last_attempt st))
              (intervalDays (int (calculateMasteryLevel st)))"
      using st(1) by blast
  qed
  have m: "calculateMasteryLevel \<lparr>solved = True, attempts = 5, first_try_solved = False,
                 last_attempt = Instant (now - 10 * msPerDay)\<rparr> = 2"
    by (simp add: calculateMasteryLevel_def)
  have d: "calculateDaysSince now (Instant (now - 10 * msPerDay)) = Num 10"
    by (simp add: calculateDaysSince_def daysSince_try_def msPerDay_def)
  have e: "let r = \<lparr>solved = True, attempts = 5, first_try_solved = False,
                 last_attempt = Instant (now - 10 * msPerDay)\<rparr>
      in calculateMasteryLevel r = 2
         \<and> intervalDays (int (calculateMasteryLevel r)) = 3
         \<and> calculateDaysSince now (last_attempt r) = Num 10
         \<and> isDueStat now r
         \<and> calculatePriority r (calculateDaysSince now (last_attempt r))
              (intervalDays (int (calculateMasteryLevel r))) = Num 155"
    by (simp add: Let_def m d intervalDays_small isDueStat_def priority_finite_days)
  show ?thesis
    using a e priority_finite_days priority_infinite_days priority_nan_days by blast
qed


theorem due_priority_score_witness:
  "map priority (dueProblems (classifyPositions
       [''f_e2e4_0'' \<mapsto> \<lparr>solved = True, attempts = 5, first_try_solved = False,
                 last_attempt = Instant 0\<rparr>] (\<lambda>i. 864000000)
       [\<lparr>object_id = 0, fen = ''f'', player_move = ''e2e4'', best_move = ''d2d4'', error_type = None\<rparr>]))
   = [Num 155]"
  using due_priority_score [of "[''f_e2e4_0'' \<mapsto> \<lparr>solved = True, attempts = 5, first_try_solved = False,
                 last_attempt = Instant 0\<rparr>]" "\<lambda>i. 864000000"
       "[\<lparr>object_id = 0, fen = ''f'', player_move = ''e2e4'', best_move = ''d2d4'', error_type = None\<rparr>]"]
  by (simp add: eval_defs)

section \<open>Clock anomalies\<close>

lemma missing_is_due: "last_attempt st = Missing \<Longrightarrow> isDueStat now st"
  by (simp add: isDueStat_def calculateDaysSince_def)

text \<open>
  C6, as the code has it. A missing last-attempt timestamp gives infinitely many days,
  which meets every interval, so the position is pushed on the due bucket. A timestamp
  in the future is not an anomaly for the code: the difference is taken in absolute
  value, so the days are the whole days between now and the timestamp, a finite
  number. The \<open>try\<close> block returns a value for every input, so nothing is raised.
\<close>

theorem days_since_anomalies:
  "calculateDaysSince now Missing = PosInf
   \<and> (last_attempt st = Missing \<longrightarrow>
        js_ge (calculateDaysSince now (last_attempt st))
          (Num (int (intervalDays (int (calculateMasteryLevel st))))))
   \<and> (i < length ps \<and> lookupStat P (i, ps ! i) = Some st \<and> last_attempt st = Missing \<longrightarrow>
        i \<in> index ` set (dueProblems (classifyPositions P clock ps)))
   \<and> (now < t \<longrightarrow> calculateDaysSince now (Instant t) = Num ((t - now) div msPerDay))
   \<and> (\<exists>d. daysSince_try now la = Inr d)"
proof -
  have "\<exists>d. daysSince_try now la = Inr d"
    by (cases la) (simp_all add: daysSince_try_def)
  moreover have "now < t \<longrightarrow> calculateDaysSince now (Instant t) = Num ((t - now) div msPerDay)"
    by (simp add: calculateDaysSince_def daysSince_try_def abs_if)
  moreover have "i < length ps \<and> lookupStat P (i, ps ! i) = Some st \<and> last_attempt st = Missing \<longrightarrow>
        i \<in> index ` set (dueProblems (classifyPositions P clock ps))"
    by (simp add: due_indices dueAt_def missing_is_due)
  ultimately show ?thesis
    by (simp add: calculateDaysSince_def)
qed

theorem days_since_anomalies_witness:
  "lookupStat [''f_e2e4_0'' \<mapsto> \<lparr>solved = True, attempts = 3, first_try_solved = True,
                 last_attempt = Missing\<rparr>]
        (0, \<lparr>object_id = 0, fen = ''f'', player_move = ''e2e4'', best_move = ''d2d4'', error_type = None\<rparr>)
     = Some \<lparr>solved = True, attempts = 3, first_try_solved = True, last_attempt = Missing\<rparr>
   \<and> 0 \<in> index ` set (dueProblems (classifyPositions
       [''f_e2e4_0'' \<mapsto> \<lparr>solved = True, attempts = 3, first_try_solved = True,
                 last_attempt = Missing\<rparr>] (\<lambda>i. 0)
       [\<lparr>object_id = 0, fen = ''f'', player_move = ''e2e4'', best_move = ''d2d4'', error_type = None\<rparr>]))
   \<and> (0::int) < 86400000 \<and> calculateDaysSince 0 (Instant 86400000) = Num 1"
  using days_since_anomalies [of 0
      "\<lparr>solved = True, attempts = 3, first_try_solved = True, last_attempt = Missing\<rparr>"
      0 "[\<lparr>object_id = 0, fen = ''f'', player_move = ''e2e4'', best_move = ''d2d4'', error_type = None\<rparr>]"
      "[''f_e2e4_0'' \<mapsto> \<lparr>solved = True, attempts = 3, first_try_solved = True,
                 last_attempt = Missing\<rparr>]" "\<lambda>i. 0" 86400000 Missing]
  by (simp add: lookupStat_def getProblemId_def string_of_int_def string_of_nat.simps
      digit_char_def msPerDay_def)

text \<open>
  A first-try record with three attempts (level 3, interval 7) whose last attempt lies
  one day in the future: one day is counted, and the position is not due.
\<close>

theorem future_timestamp_counterexample:
  "calculateDaysSince 0 (Instant 86400000) = Num 1
   \<and> dueProblems (classifyPositions
       [''f_e2e4_0'' \<mapsto> \<lparr>solved = True, attempts = 3, first_try_solved = True,
                 last_attempt = Instant 86400000\<rparr>] (\<lambda>i. 0)
       [\<lparr>object_id = 0, fen = ''f'', player_move = ''e2e4'', best_move = ''d2d4'', error_type = None\<rparr>]) = []
   \<and> map index (notDueProblems (classifyPositions
       [''f_e2e4_0'' \<mapsto> \<lparr>solved = True, attempts = 3, first_try_solved = True,
                 last_attempt = Instant 86400000\<rparr>] (\<lambda>i. 0)
       [\<lparr>object_id = 0, fen = ''f'', player_move = ''e2e4'', best_move = ''d2d4'', error_type = None\<rparr>])) = [0]"
  by (simp add: eval_defs)

section \<open>Buckets and the session queue\<close>

lemma buckets_exclusive:
  "lookupStat P ip = None \<Longrightarrow> \<not> dueAt P clock ip"
  "lookupStat P ip = None \<Longrightarrow> \<not> notDueAt P clock ip"
  "dueAt P clock ip \<Longrightarrow> \<not> notDueAt P clock ip"
  by (simp_all add: dueAt_def notDueAt_def split: option.splits)

lemma mset_selectItems:
  "mset (selectItems rnd b) =
     mset (take maxReviewProblems (array_sort byPriority (dueProblems b)))
     + mset (take maxNewProblems (newProblems b))"
  by (simp add: selectItems_def Let_def mset_shuffleArray)

lemma set_selectItems:
  "set (selectItems rnd b) \<subseteq> set (dueProblems b) \<union> set (newProblems b)"
proof
  fix x assume "x \<in> set (selectItems rnd b)"
  then have "x \<in># mset (selectItems rnd b)" by simp
  then have "x \<in> set (take maxReviewProblems (array_sort byPriority (dueProblems b)))
       \<or> x \<in> set (take maxNewProblems (newProblems b))"
    unfolding mset_selectItems by simp
  then have "x \<in> set (array_sort byPriority (dueProblems b)) \<or> x \<in> set (newProblems b)"
    by (blast dest: in_set_takeD)
  then show "x \<in> set (dueProblems b) \<union> set (newProblems b)"
    by (simp add: set_array_sort)
qed

lemma selected_not_notDue:
  assumes "item \<in> set (selectItems rnd (classifyPositions P clock ps))"
  shows "index item \<notin> index ` set (notDueProblems (classifyPositions P clock ps))"
proof -
  have "item \<in> set (dueProblems (classifyPositions P clock ps))
        \<or> item \<in> set (newProblems (classifyPositions P clock ps))"
    using assms set_selectItems by blast
  then have "index item \<in> index ` set (dueProblems (classifyPositions P clock ps))
        \<or> index item \<in> index ` set (newProblems (classifyPositions P clock ps))"
    by blast
  then have "dueAt P clock (index item, ps ! index item)
        \<or> lookupStat P (index item, ps ! index item) = None"
    unfolding new_indices due_indices by auto
  then have "\<not> notDueAt P clock (index item, ps ! index item)"
    using buckets_exclusive by blast
  then show ?thesis
    unfolding notDue_indices by simp
qed

lemmas example_defs = example_corpus_def example_stats_def posA_def posB_def posC_def

text \<open>
  C1. For the position at index \<open>i\<close> of the corpus handed to the scheduler: without
  a record under its problem ID it is pushed on the new bucket and on no other; with a
  record it is pushed on the due bucket exactly when the days since the last attempt
  are at least the interval of its mastery level or the level is 0, and on the not-due
  bucket otherwise; an unsolved record is always due; and a not-due position is not
  among the items selected for the session.
\<close>

theorem dueness_classification:
  assumes "i < length ps"
  shows "let b = classifyPositions P clock ps; r = P (getProblemId (ps ! i) (int i)) in
     (r = None \<longrightarrow> i \<in> index ` set (newProblems b) \<and> i \<notin> index ` set (dueProblems b)
         \<and> i \<notin> index ` set (notDueProblems b))
   \<and> (\<forall>st. r = Some st \<longrightarrow>
         i \<notin> index ` set (newProblems b)
       \<and> (i \<in> index ` set (dueProblems b) \<longleftrightarrow>
            js_ge (calculateDaysSince (clock i) (last_attempt st))
              (Num (int (intervalDays (int (calculateMasteryLevel st)))))
            \<or> calculateMasteryLevel st = 0)
       \<and> (i \<in> index ` set (notDueProblems b) \<longleftrightarrow> i \<notin> index ` set (dueProblems b))
       \<and> (\<not> solved st \<longrightarrow> i \<in> index ` set (dueProblems b)))
   \<and> (i \<in> index ` set (notDueProblems b) \<longrightarrow> i \<notin> index ` set (selectItems rnd b))"
proof -
  have "i \<in> index ` set (notDueProblems (classifyPositions P clock ps)) \<longrightarrow>
        i \<notin> index ` set (selectItems rnd (classifyPositions P clock ps))"
    using selected_not_notDue by blast
  moreover have "\<not> solved st \<Longrightarrow> calculateMasteryLevel st = 0" for st
    by (simp add: calculateMasteryLevel_def)
  ultimately show ?thesis
    using assms unfolding Let_def new_indices due_indices notDue_indices
    by (simp add: lookupStat_def dueAt_def notDueAt_def isDueStat_def)
qed


theorem dueness_classification_witness:
  "(0::nat) < length example_corpus \<and> 1 < length example_corpus \<and> 2 < length example_corpus
   \<and> 0 \<in> index ` set (newProblems (classifyPositions example_stats (\<lambda>i. 0) example_corpus))
   \<and> 1 \<in> index ` set (dueProblems (classifyPositions example_stats (\<lambda>i. 0) example_corpus))
   \<and> 2 \<in> index ` set (notDueProblems (classifyPositions example_stats (\<lambda>i. 0) example_corpus))
   \<and> 2 \<notin> index ` set (selectItems (\<lambda>i. 0)
             (classifyPositions example_stats (\<lambda>i. 0) example_corpus))"
  using dueness_classification [of 0 example_corpus example_stats "\<lambda>i. 0" "\<lambda>i. 0"]
    dueness_classification [of 1 example_corpus example_stats "\<lambda>i. 0" "\<lambda>i. 0"]
    dueness_classification [of 2 example_corpus example_stats "\<lambda>i. 0" "\<lambda>i. 0"]
  by (simp add: example_defs getProblemId_def string_of_int_def string_of_nat.simps
      digit_char_def calculateMasteryLevel_def calculateDaysSince_def daysSince_try_def
      msPerDay_def intervalDays_small Let_def)

lemma due_priorities_rankable:
  "\<forall>item \<in> set (dueProblems (classifyPositions P clock ps)). rankable (priority item)"
proof
  fix item assume "item \<in> set (dueProblems (classifyPositions P clock ps))"
  then obtain st where "item = dueItem (clock (index item)) st (index item, ps ! index item)"
    using due_item_origin by blast
  then have "priority item =
      calculatePriority st (calculateDaysSince (clock (index item)) (last_attempt st))
        (intervalDays (int (calculateMasteryLevel st)))"
    by (metis dueItem_def queueItem.select_convs(3))
  then show "rankable (priority item)"
    using rankable_priority daysSince_cases by metis
qed

text \<open>
  C4. The session queue is the positions of the selected items, and these are, as a
  multiset, the first \<open>maxReviewProblems\<close> items of the due bucket sorted by
  descending priority together with the first \<open>maxNewProblems\<close> items of the new
  bucket: at most 50 and at most 10, so at most 60 in all, and none of them is an item
  of the not-due bucket.
\<close>

theorem queue_caps:
  "let b = classifyPositions (problemStatsOf cs) clock ps;
       sortedDue = array_sort byPriority (dueProblems b);
       shuffled = selectItems rnd b
   in fst (calculateSpacedRepetitionQueue rnd clock ps cs) = map position shuffled
    \<and> mset shuffled =
        mset (take maxReviewProblems sortedDue) + mset (take maxNewProblems (newProblems b))
    \<and> mset sortedDue = mset (dueProblems b)
    \<and> sorted_wrt (\<lambda>x y. js_ge (priority x) (priority y)) sortedDue
    \<and> length (take maxNewProblems (newProblems b)) \<le> 10
    \<and> length (take maxReviewProblems sortedDue) \<le> 50
    \<and> length (fst (calculateSpacedRepetitionQueue rnd clock ps cs)) \<le> 60
    \<and> (\<forall>item \<in> set shuffled. index item \<notin> index ` set (notDueProblems b))"
proof -
  define b where "b = classifyPositions (problemStatsOf cs) clock ps"
  define sortedDue where "sortedDue = array_sort byPriority (dueProblems b)"
  define shuffled where "shuffled = selectItems rnd b"
  have q: "fst (calculateSpacedRepetitionQueue rnd clock ps cs) = map position shuffled"
    by (simp add: calculateSpacedRepetitionQueue_def Let_def b_def shuffled_def)
  have m: "mset shuffled =
        mset (take maxReviewProblems sortedDue) + mset (take maxNewProblems (newProblems b))"
    by (simp add: shuffled_def sortedDue_def mset_selectItems)
  have p: "mset sortedDue = mset (dueProblems b)"
    by (simp add: sortedDue_def mset_array_sort)
  have s: "sorted_wrt (\<lambda>x y. js_ge (priority x) (priority y)) sortedDue"
    unfolding sortedDue_def b_def by (rule sorted_array_sort) (rule due_priorities_rankable)
  have n: "length (take maxNewProblems (newProblems b)) \<le> 10"
    by (simp add: maxNewProblems_def)
  have r: "length (take maxReviewProblems sortedDue) \<le> 50"
    by (simp add: maxReviewProblems_def)
  have "length shuffled = size (mset shuffled)" by simp
  also have "\<dots> = length (take maxReviewProblems sortedDue)
      + length (take maxNewProblems (newProblems b))"
    unfolding m by simp
  also have "\<dots> \<le> 60" using n r by linarith
  finally have l: "length (fst (calculateSpacedRepetitionQueue rnd clock ps cs)) \<le> 60"
    using q by simp
  have e: "\<forall>item \<in> set shuffled. index item \<notin> index ` set (notDueProblems b)"
    unfolding shuffled_def b_def using selected_not_notDue by blast
  show ?thesis
    using q m p s n r l e unfolding Let_def b_def sortedDue_def shuffled_def by blast
qed

theorem queue_caps_witness:
  "map index (selectItems (\<lambda>i. 0) (classifyPositions example_stats (\<lambda>i. 0) example_corpus)) = [0, 1]
   \<and> map index (notDueProblems (classifyPositions example_stats (\<lambda>i. 0) example_corpus)) = [2]
   \<and> fst (calculateSpacedRepetitionQueue (\<lambda>i. 0) (\<lambda>i. 0) example_corpus (Some example_stats))
       = [posA, posB]"
  using queue_caps [of "Some example_stats" "\<lambda>i. 0" example_corpus "\<lambda>i. 0"]
  by (simp add: example_defs eval_defs problemStatsOf_def calculateSpacedRepetitionQueue_def
      selectItems_def shuffleArray_def maxNewProblems_def maxReviewProblems_def byPriority_def)

section \<open>The attempt state machine\<close>

lemmas trainer_defs = handleEvent_def learnerEvent_def shown_def onPieceDrop_def
  handleIncorrectAttempt_def handlePositionComplete_def runTimer_def solvedEffect_def
  setTimeout_def capture_def array_get_def array_set_def MAX_ATTEMPTS_def Let_def

lemma array_get_set: "array_get d (array_set d xs i v) i = v"
  by (simp add: array_get_def array_set_def nth_append)

lemma drop_incorrect:
  assumes "current s = currentIndex s"
    and "currentIndex s < length (currentPositions s)"
    and "\<not> array_get False (solved_arr s) (currentIndex s)"
    and "u \<noteq> best_move (currentPositions s ! currentIndex s)"
    and "\<not> isLoading s"
  shows "current (handleEvent (Drop True u ok) s) = current s"
    and "currentIndex (handleEvent (Drop True u ok) s) = currentIndex s"
    and "currentPositions (handleEvent (Drop True u ok) s) = currentPositions s"
    and "solved_arr (handleEvent (Drop True u ok) s) = solved_arr s"
    and "completions (handleEvent (Drop True u ok) s) = completions s"
    and "showSolution (handleEvent (Drop True u ok) s) = showSolution s"
    and "\<not> previousSolvedState (handleEvent (Drop True u ok) s)"
    and "array_get 0 (attempts_arr (handleEvent (Drop True u ok) s)) (currentIndex s)
           = array_get 0 (attempts_arr s) (currentIndex s) + 1"
    and "autoRevealTriggered (handleEvent (Drop True u ok) s)
           = (autoRevealTriggered s \<or> MAX_ATTEMPTS \<le> array_get 0 (attempts_arr s) (currentIndex s) + 1)"
    and "timers (handleEvent (Drop True u ok) s)
           = (if MAX_ATTEMPTS \<le> array_get 0 (attempts_arr s) (currentIndex s) + 1
                 \<and> \<not> autoRevealTriggered s
              then timers s @ [(time_ms s + 1000, RevealTimer
                     \<lparr>cl_currentPositions = currentPositions s, cl_currentIndex = currentIndex s,
                      cl_solved = solved_arr s, cl_attempts = attempts_arr s,
                      cl_isBackendAvailable = isBackendAvailable s\<rparr>)]
              else timers s)"
    and "isLoading (handleEvent (Drop True u ok) s) = isLoading s"
proof -
  define s2 where "s2 =
    (if board_isBackendAvailable s
     then s\<lparr>recorded := recorded s @
               [(getProblemId (currentPositions s ! current s) (int (current s)), False)],
            board_isBackendAvailable := ok\<rparr>
     else s)"
  define s3 where "s3 = handleIncorrectAttempt s2"
  have f2: "current s2 = current s" "currentIndex s2 = currentIndex s"
    "currentPositions s2 = currentPositions s" "solved_arr s2 = solved_arr s"
    "completions s2 = completions s" "showSolution s2 = showSolution s"
    "attempts_arr s2 = attempts_arr s" "autoRevealTriggered s2 = autoRevealTriggered s"
    "timers s2 = timers s" "isBackendAvailable s2 = isBackendAvailable s"
    "isLoading s2 = isLoading s" "time_ms s2 = time_ms s"
    by (simp_all add: s2_def)
  have sh: "shown s"
    using assms by (auto simp: shown_def)
  have d: "learnerEvent (Drop True u ok) s = s3"
    using assms by (simp add: learnerEvent_def onPieceDrop_def Let_def s2_def s3_def)
  have f3: "current s3 = current s2" "currentIndex s3 = currentIndex s2"
    "currentPositions s3 = currentPositions s2" "solved_arr s3 = solved_arr s2"
    "completions s3 = completions s2" "showSolution s3 = showSolution s2"
    "isLoading s3 = isLoading s2"
    "attempts_arr s3 = array_set 0 (attempts_arr s2) (currentIndex s2)
        (array_get 0 (attempts_arr s2) (currentIndex s2) + 1)"
    "autoRevealTriggered s3
       = (autoRevealTriggered s2 \<or> MAX_ATTEMPTS \<le> array_get 0 (attempts_arr s2) (currentIndex s2) + 1)"
    "timers s3
       = (if MAX_ATTEMPTS \<le> array_get 0 (attempts_arr s2) (currentIndex s2) + 1
             \<and> \<not> autoRevealTriggered s2
          then timers s2 @ [(time_ms s2 + 1000, RevealTimer (capture s2))] else timers s2)"
    by (auto simp: s3_def handleIncorrectAttempt_def setTimeout_def Let_def)
  have c: "capture s2 =
      \<lparr>cl_currentPositions = currentPositions s, cl_currentIndex = currentIndex s,
       cl_solved = solved_arr s, cl_attempts = attempts_arr s,
       cl_isBackendAvailable = isBackendAvailable s\<rparr>"
    by (simp add: capture_def f2)
  have sh3: "shown s3"
    using sh by (simp add: shown_def f3 f2)
  have e: "handleEvent (Drop True u ok) s = solvedEffect s3"
    using sh sh3 by (simp add: handleEvent_def d)
  have "\<not> array_get False (solved_arr s3) (currentIndex s3)"
    using assms by (simp add: f3 f2)
  then have g: "solvedEffect s3 = s3\<lparr>previousSolvedState := False\<rparr>"
    by (simp add: solvedEffect_def Let_def)
  show "current (handleEvent (Drop True u ok) s) = current s"
    and "currentIndex (handleEvent (Drop True u ok) s) = currentIndex s"
    and "currentPositions (handleEvent (Drop True u ok) s) = currentPositions s"
    and "solved_arr (handleEvent (Drop True u ok) s) = solved_arr s"
    and "completions (handleEvent (Drop True u ok) s) = completions s"
    and "showSolution (handleEvent (Drop True u ok) s) = showSolution s"
    and "\<not> previousSolvedState (handleEvent (Drop True u ok) s)"
    and "autoRevealTriggered (handleEvent (Drop True u ok) s)
           = (autoRevealTriggered s \<or> MAX_ATTEMPTS \<le> array_get 0 (attempts_arr s) (currentIndex s) + 1)"
    and "timers (handleEvent (Drop True u ok) s)
           = (if MAX_ATTEMPTS \<le> array_get 0 (attempts_arr s) (currentIndex s) + 1
                 \<and> \<not> autoRevealTriggered s
              then timers s @ [(time_ms s + 1000, RevealTimer
                     \<lparr>cl_currentPositions = currentPositions s, cl_currentIndex = currentIndex s,
                      cl_solved = solved_arr s, cl_attempts = attempts_arr s,
                      cl_isBackendAvailable = isBackendAvailable s\<rparr>)]
              else timers s)"
    and "isLoading (handleEvent (Drop True u ok) s) = isLoading s"
    by (simp_all add: e g f3 f2 c)
  show "array_get 0 (attempts_arr (handleEvent (Drop True u ok) s)) (currentIndex s)
           = array_get 0 (attempts_arr s) (currentIndex s) + 1"
    by (simp add: e g f3 f2 array_get_set)
qed

lemma tick_reveal:
  assumes "timers s = [(d, RevealTimer cl)]"
    and "autoRevealTriggered s"
    and "cl_currentIndex cl = currentIndex s"
    and "\<not> previousSolvedState s"
    and "shown s"
  shows "array_get False (solved_arr (handleEvent Tick s)) (currentIndex s)"
    and "timers (handleEvent Tick s) = [(max (time_ms s) d + 4000, AutoCompleteTimer cl)]"
    and "showAutoRevealMessage (handleEvent Tick s)"
    and "autoRevealTriggered (handleEvent Tick s)"
    and "previousSolvedState (handleEvent Tick s)"
    and "completions (handleEvent Tick s) = completions s"
    and "currentIndex (handleEvent Tick s) = currentIndex s"
    and "shown (handleEvent Tick s)"
  using assms by (simp_all add: trainer_defs nth_append)

lemma tick_autocomplete:
  assumes "timers s = [(d, AutoCompleteTimer cl)]"
    and "previousSolvedState s"
    and "shown s"
  shows "completions (handleEvent Tick s) = completions s @ [(cl_currentIndex cl, False, True)]"
    and "timers (handleEvent Tick s) = [(max (time_ms s) d + 3000, AdvanceTimer cl)]"
    and "\<not> autoRevealTriggered (handleEvent Tick s)"
    and "previousSolvedState (handleEvent Tick s)
           = array_get False (solved_arr s) (currentIndex s)"
    and "currentIndex (handleEvent Tick s) = currentIndex s"
    and "shown (handleEvent Tick s)"
  using assms by (simp_all add: trainer_defs)

lemma tick_advance:
  assumes "timers s = [(d, AdvanceTimer cl)]"
    and "previousSolvedState s"
  shows "completions (handleEvent Tick s) = completions s"
    and "timers (handleEvent Tick s) = []"
  using assms by (simp_all add: trainer_defs)

lemma filtered_example:
  "getFilteredPositions ''blunder'' example_corpus = [posB, posC]"
  by (simp add: getFilteredPositions_def example_defs toLowerCase_def lower_char_def)

lemma queue_example:
  "calculateSpacedRepetitionQueue (\<lambda>i. 0) (\<lambda>i. 0) [posB, posC] (Some Map.empty)
     = ([posC, posB], \<lparr>due = 0, new = 2, total = 2\<rparr>)"
  by (simp add: eval_defs problemStatsOf_def calculateSpacedRepetitionQueue_def
      selectItems_def shuffleArray_def maxNewProblems_def maxReviewProblems_def)

lemma example_session_eq:
  "example_session =
     (initialState example_corpus)
       \<lparr>currentPositions := [posC, posB], solved_arr := [False, False],
        attempts_arr := [0, 0], isLoading := False\<rparr>"
  by (simp add: example_session_def initializeSpacedRepetition_def Let_def initialState_def
      filtered_example queue_example mountBoard_def numeral_2_eq_2)

lemma example_session_fields:
  "positions example_session = example_corpus"
  "current example_session = 0" "currentIndex example_session = 0"
  "currentPositions example_session = [posC, posB]"
  "attempts_arr example_session = [0, 0]" "solved_arr example_session = [False, False]"
  "\<not> autoRevealTriggered example_session" "timers example_session = []"
  "completions example_session = []" "recorded example_session = []"
  "board_isBackendAvailable example_session" "isBackendAvailable example_session"
  "\<not> previousSolvedState example_session" "\<not> isLoading example_session"
  "time_ms example_session = 0"
  by (simp_all add: example_session_eq initialState_def)

text \<open>
  The run the code is written for. Take an exposure that starts fresh: the board shows
  the current queue position, no attempt is counted for it, it is not solved, the
  auto-reveal flag is clear and no timer is pending. Three legal drops that are not
  the best move leave the flag clear after the first and the second, and after the
  third set it, so that the best move is shown, with the attempt count at
  \<open>MAX_ATTEMPTS\<close> and the reveal timer pending. If the learner does nothing else, the
  timers mark the position solved, put up the auto-reveal message, and call
  \<open>handlePositionComplete\<close> once, with \<open>wasCorrect = false\<close> and
  \<open>wasAutoRevealed = true\<close>; no timer is left.
\<close>

lemma auto_reveal_undisturbed:
  assumes "current s = currentIndex s"
    and "currentIndex s < length (currentPositions s)"
    and "array_get 0 (attempts_arr s) (currentIndex s) = 0"
    and "\<not> array_get False (solved_arr s) (currentIndex s)"
    and "\<not> autoRevealTriggered s"
    and "timers s = []"
    and "\<not> isLoading s"
    and "u1 \<noteq> best_move (currentPositions s ! currentIndex s)"
    and "u2 \<noteq> best_move (currentPositions s ! currentIndex s)"
    and "u3 \<noteq> best_move (currentPositions s ! currentIndex s)"
  shows "let s1 = handleEvent (Drop True u1 ok1) s;
             s2 = handleEvent (Drop True u2 ok2) s1;
             s3 = handleEvent (Drop True u3 ok3) s2;
             s4 = handleEvent Tick s3;
             s5 = handleEvent Tick s4;
             s6 = handleEvent Tick s5
         in \<not> autoRevealTriggered s1 \<and> timers s1 = [] \<and> completions s1 = completions s
          \<and> \<not> autoRevealTriggered s2 \<and> timers s2 = [] \<and> completions s2 = completions s
          \<and> autoRevealTriggered s3 \<and> length (timers s3) = 1
          \<and> array_get 0 (attempts_arr s3) (currentIndex s) = MAX_ATTEMPTS
          \<and> shownSolution s3 = Some (best_move (currentPositions s ! currentIndex s))
          \<and> completions s3 = completions s
          \<and> array_get False (solved_arr s4) (currentIndex s) \<and> showAutoRevealMessage s4
          \<and> autoRevealTriggered s4 \<and> length (timers s4) = 1 \<and> completions s4 = completions s
          \<and> completions s5 = completions s @ [(currentIndex s, False, True)]
          \<and> length (timers s5) = 1
          \<and> completions s6 = completions s @ [(currentIndex s, False, True)]
          \<and> timers s6 = []"
proof -
  define s1 where "s1 = handleEvent (Drop True u1 ok1) s"
  define s2 where "s2 = handleEvent (Drop True u2 ok2) s1"
  define s3 where "s3 = handleEvent (Drop True u3 ok3) s2"
  define s4 where "s4 = handleEvent Tick s3"
  define s5 where "s5 = handleEvent Tick s4"
  define s6 where "s6 = handleEvent Tick s5"
  note d1 = drop_incorrect [OF assms(1) assms(2) assms(4) assms(8) assms(7), of ok1, folded s1_def]
  have p1: "current s1 = currentIndex s1" "currentIndex s1 < length (currentPositions s1)"
    "\<not> array_get False (solved_arr s1) (currentIndex s1)"
    "u2 \<noteq> best_move (currentPositions s1 ! currentIndex s1)"
    "\<not> isLoading s1"
    using assms by (simp_all add: d1)
  have a1: "array_get 0 (attempts_arr s1) (currentIndex s1) = 1"
    "\<not> autoRevealTriggered s1" "timers s1 = []" "completions s1 = completions s"
    using assms by (simp_all add: d1 MAX_ATTEMPTS_def)
  note d2 = drop_incorrect [OF p1, of ok2, folded s2_def]
  have p2: "current s2 = currentIndex s2" "currentIndex s2 < length (currentPositions s2)"
    "\<not> array_get False (solved_arr s2) (currentIndex s2)"
    "u3 \<noteq> best_move (currentPositions s2 ! currentIndex s2)"
    "\<not> isLoading s2"
    using assms p1 by (simp_all add: d2 d1)
  have a2: "array_get 0 (attempts_arr s2) (currentIndex s2) = 2"
    "\<not> autoRevealTriggered s2" "timers s2 = []" "completions s2 = completions s"
    using a1 by (simp_all add: d2 MAX_ATTEMPTS_def)
  note d3 = drop_incorrect [OF p2, of ok3, folded s3_def]
  have i3: "currentIndex s3 = currentIndex s" "current s3 = currentIndex s"
    "currentPositions s3 = currentPositions s"
    using assms by (simp_all add: d3 d2 d1)
  have i2: "currentIndex s2 = currentIndex s"
    by (simp add: d2 d1)
  have "array_get 0 (attempts_arr s3) (currentIndex s2) = MAX_ATTEMPTS"
    using a2 by (simp add: d3 MAX_ATTEMPTS_def)
  then have n3: "array_get 0 (attempts_arr s3) (currentIndex s) = MAX_ATTEMPTS"
    by (simp only: i2)
  have a3: "array_get 0 (attempts_arr s3) (currentIndex s) = MAX_ATTEMPTS"
    "autoRevealTriggered s3" "completions s3 = completions s" "\<not> previousSolvedState s3"
    using a2 n3 by (simp_all add: d3 MAX_ATTEMPTS_def)
  obtain d cl where t3: "timers s3 = [(d, RevealTimer cl)]"
    and cl: "cl_currentIndex cl = currentIndex s3"
    using a2 by (simp add: d3 MAX_ATTEMPTS_def)
  have "\<not> isLoading s3"
    using p2(5) by (simp add: d3(11))
  then have sh3: "shown s3"
    using assms(2) i3(3) by (auto simp: shown_def)
  have sh: "shownSolution s3 = Some (best_move (currentPositions s ! currentIndex s))"
    using assms(2) a3(2) by (simp add: shownSolution_def i3)
  note k4 = tick_reveal [OF t3 a3(2) cl a3(4) sh3, folded s4_def]
  note k5 = tick_autocomplete [OF k4(2) k4(5) k4(8), folded s5_def]
  have "previousSolvedState s5"
    using k4(1) by (simp add: k5(4) k4(7) i3)
  note k6 = tick_advance [OF k5(2) this, folded s6_def]
  have r4: "array_get False (solved_arr s4) (currentIndex s)" "showAutoRevealMessage s4"
    "autoRevealTriggered s4" "length (timers s4) = 1" "completions s4 = completions s"
    using k4 a3 by (simp_all add: i3)
  have r5: "completions s5 = completions s @ [(currentIndex s, False, True)]"
    "length (timers s5) = 1"
    using r4 by (simp_all add: k5 cl i3)
  have r6: "completions s6 = completions s @ [(currentIndex s, False, True)]" "timers s6 = []"
    using r5 by (simp_all add: k6)
  have "length (timers s3) = 1" using t3 by simp
  then show ?thesis
    unfolding Let_def
    using a1 a2 a3 sh r4 r5 r6
    unfolding s1_def s2_def s3_def s4_def s5_def s6_def
    by blast
qed


lemma auto_reveal_undisturbed_example:
  "current example_session = currentIndex example_session
   \<and> currentIndex example_session < length (currentPositions example_session)
   \<and> array_get 0 (attempts_arr example_session) (currentIndex example_session) = 0
   \<and> \<not> array_get False (solved_arr example_session) (currentIndex example_session)
   \<and> \<not> autoRevealTriggered example_session
   \<and> timers example_session = []
   \<and> \<not> isLoading example_session
   \<and> ''a2a3'' \<noteq> best_move (currentPositions example_session ! currentIndex example_session)
   \<and> completions
        (handleEvent Tick (handleEvent Tick (handleEvent Tick
          (handleEvent (Drop True ''a2a3'' True)
            (handleEvent (Drop True ''a2a3'' True)
              (handleEvent (Drop True ''a2a3'' True) example_session))))))
      = [(0, False, True)]"
  using auto_reveal_undisturbed
    [of example_session "''a2a3''" "''a2a3''" "''a2a3''" True True True]
  by (simp add: example_session_fields array_get_def posC_def Let_def)



text \<open>
  C5 fails on the code. The button to continue is shown exactly while the auto-reveal
  flag is set, and it completes the position without cancelling the pending timers.
  On the small session the learner drops three wrong moves on the first queue position;
  the solution is revealed after one second; half a second later the learner presses
  the button, which completes the position as incorrect and auto-revealed. The timer
  set by the reveal still runs at five seconds and completes the same position a second
  time, so that two completion events are recorded for the one exposure, and each
  completion advances the queue, which ends beyond its second position.
\<close>

theorem auto_reveal_completes_twice:
  "let s3 = handleEvent (Drop True ''a2a3'' True)
              (handleEvent (Drop True ''a2a3'' True)
                (handleEvent (Drop True ''a2a3'' True) example_session));
       s4 = handleEvent Tick s3;
       s5 = handleEvent ContinueToNext (handleEvent (Elapse 500) s4);
       s6 = handleEvent Tick s5;
       s7 = handleEvent Tick s6;
       s8 = handleEvent Tick s7
   in currentPositions example_session = [posC, posB]
    \<and> autoRevealTriggered s3 \<and> completions s3 = []
    \<and> map fst (timers s3) = [1000]
    \<and> autoRevealTriggered s4 \<and> completions s4 = [] \<and> time_ms s4 = 1000
    \<and> map fst (timers s4) = [5000]
    \<and> completions s5 = [(0, False, True)] \<and> time_ms s5 = 1500
    \<and> map fst (timers s5) = [5000, 4500]
    \<and> currentIndex s6 = 1 \<and> time_ms s6 = 4500
    \<and> completions s7 = [(0, False, True), (0, False, True)] \<and> time_ms s7 = 5000
    \<and> recorded s7 = [(''c_h2h3_0'', False), (''c_h2h3_0'', False), (''c_h2h3_0'', False),
                       (''c_h2h3_2'', False), (''c_h2h3_2'', False)]
    \<and> currentIndex s8 = 2 \<and> timers s8 = []
    \<and> completions s8 = [(0, False, True), (0, False, True)]"
  by code_simp

section \<open>The fallback without backend\<close>

text \<open>
  C8. When the availability check answers no, initialisation ends with the first 20
  filtered positions in corpus order as the session, not loading and marked offline.
  The result is the same whatever the store would have answered, whatever the clock
  and the random source: nothing is classified.
\<close>

theorem store_unavailable_fallback:
  "let s' = initializeSpacedRepetition rnd clock errorTypeFilter (Inr False) statsResp s
   in currentPositions s' = take 20 (getFilteredPositions errorTypeFilter (positions s))
    \<and> length (currentPositions s') \<le> 20
    \<and> length (solved_arr s') = length (currentPositions s')
    \<and> length (attempts_arr s') = length (currentPositions s')
    \<and> \<not> isLoading s' \<and> \<not> isBackendAvailable s'
    \<and> s' = initializeSpacedRepetition rnd' clock' errorTypeFilter (Inr False) statsResp' s"
  by (simp add: initializeSpacedRepetition_def mountBoard_def Let_def)

theorem store_unavailable_fallback_witness:
  "currentPositions
     (initializeSpacedRepetition (\<lambda>i. 0) (\<lambda>i. 0) ''blunder'' (Inr False)
        (Inr (Some example_stats)) (initialState example_corpus)) = [posB, posC]"
  using store_unavailable_fallback [of "\<lambda>i. 0" "\<lambda>i. 0" "''blunder''"
      "Inr (Some example_stats)" "initialState example_corpus"]
  by (simp add: Let_def filtered_example initialState_def)

section \<open>Problem IDs along the three paths\<close>

lemma id_strings:
  "getProblemId posC 0 = ''c_h2h3_0''" "getProblemId posC 1 = ''c_h2h3_1''"
  "getProblemId posC 2 = ''c_h2h3_2''" "getProblemId posB 0 = ''b_g1f3_0''"
  by (simp_all add: getProblemId_def string_of_int_def string_of_nat.simps digit_char_def
      example_defs)

lemma indexOf_example: "indexOf example_corpus posC = 2"
  by (simp add: indexOf_def example_defs)

lemma drop_correct_example:
  "handleEvent (Drop True ''c2c4'' True) example_session =
     example_session
       \<lparr>solved_arr := [True, False], recorded := [(''c_h2h3_0'', True)],
        board_isBackendAvailable := True,
        timers := [(2000, SolvedCompleteTimer
          \<lparr>cl_currentPositions = [posC, posB], cl_currentIndex = 0,
           cl_solved = [True, False], cl_attempts = [0, 0],
           cl_isBackendAvailable = True\<rparr>)],
        previousSolvedState := True\<rparr>"
proof -
  have "best_move posC = ''c2c4''" by (simp add: posC_def)
  then show ?thesis
    by (simp add: example_session_eq initialState_def trainer_defs id_strings)
qed


lemma complete_example:
  "recorded (handleEvent Tick (handleEvent (Drop True ''c2c4'' True) example_session))
     = [(''c_h2h3_0'', True), (''c_h2h3_2'', True)]"
  unfolding drop_correct_example
  by (simp add: example_session_eq initialState_def trainer_defs indexOf_example id_strings)

text \<open>
  C10 fails on the code. With the blunder filter on the small corpus the third position
  has index 1 in the filtered corpus, index 0 in the shuffled queue and index 2 in the
  full corpus. Solving it records the attempt under the ID ending in 0 (the drop
  handler) and then the completed exposure under the ID ending in 2 (the completion
  handler), while classification looks it up under the ID ending in 1: with a record
  under that ID the position is found and not due, with records under the two IDs
  actually written it is classified new.
\<close>

theorem problem_ids_differ:
  "getFilteredPositions ''blunder'' example_corpus = [posB, posC]
   \<and> currentPositions example_session = [posC, posB]
   \<and> recorded (handleEvent (Drop True ''c2c4'' True) example_session) = [(''c_h2h3_0'', True)]
   \<and> recorded (handleEvent Tick (handleEvent (Drop True ''c2c4'' True) example_session))
       = [(''c_h2h3_0'', True), (''c_h2h3_2'', True)]
   \<and> map index (notDueProblems (classifyPositions
         [''c_h2h3_1'' \<mapsto> \<lparr>solved = True, attempts = 3, first_try_solved = True,
            last_attempt = Instant 0\<rparr>] (\<lambda>i. 0) [posB, posC])) = [1]
   \<and> map index (newProblems (classifyPositions
         [''c_h2h3_0'' \<mapsto> \<lparr>solved = True, attempts = 3, first_try_solved = True,
            last_attempt = Instant 0\<rparr>,
          ''c_h2h3_2'' \<mapsto> \<lparr>solved = True, attempts = 3, first_try_solved = True,
            last_attempt = Instant 0\<rparr>] (\<lambda>i. 0) [posB, posC])) = [0, 1]"
proof -
  have f1: "getFilteredPositions ''blunder'' example_corpus = [posB, posC]"
    by (rule filtered_example)
  have f2: "currentPositions example_session = [posC, posB]"
    by (rule example_session_fields)
  have f3: "recorded (handleEvent (Drop True ''c2c4'' True) example_session)
      = [(''c_h2h3_0'', True)]"
    by (simp add: drop_correct_example)
  have f4: "recorded (handleEvent Tick (handleEvent (Drop True ''c2c4'' True) example_session))
       = [(''c_h2h3_0'', True), (''c_h2h3_2'', True)]"
    by (rule complete_example)
  have f5: "map index (notDueProblems (classifyPositions
         [''c_h2h3_1'' \<mapsto> \<lparr>solved = True, attempts = 3, first_try_solved = True,
            last_attempt = Instant 0\<rparr>] (\<lambda>i. 0) [posB, posC])) = [1]"
    by (simp add: eval_defs example_defs)
  have f6: "map index (newProblems (classifyPositions
         [''c_h2h3_0'' \<mapsto> \<lparr>solved = True, attempts = 3, first_try_solved = True,
            last_attempt = Instant 0\<rparr>,
          ''c_h2h3_2'' \<mapsto> \<lparr>solved = True, attempts = 3, first_try_solved = True,
            last_attempt = Instant 0\<rparr>] (\<lambda>i. 0) [posB, posC])) = [0, 1]"
    by (simp add: eval_defs example_defs)
  show ?thesis
    by (intro conjI) (fact f1, fact f2, fact f3, fact f4, fact f5, fact f6)
qed

end
